theory Spec2Isabelle
  imports Main
begin

section \<open>The ODM document root of rwslib (rwslib/builders/core.py)\<close>

text \<open>
  The class \<open>ODM\<close> collects the scalar attributes of a CDISC ODM file, at most one
  Study, a list of ClinicalData sections and at most one AdminData section, and renders
  them through an \<open>xml.etree\<close> tree builder. Every method is a function from the
  object's state to a result and the state after the call; a raised exception is the
  \<open>Inl\<close> branch of the result.
\<close>

subsection \<open>Python values\<close>

text \<open>
  \<open>datetime.date\<close> and \<open>datetime.datetime\<close> values. The fields are those of the Python
  constructors (year, month, day, hour, minute, second, microsecond); the last field of
  a \<open>datetime\<close> is what its \<open>utcoffset()\<close> returns: \<open>None\<close> for a naive value,
  otherwise the offset from UTC, in microseconds.
\<close>

datatype pydate = Date nat nat nat

datatype pydatetime = DateTime nat nat nat nat nat nat nat "int option"

text \<open>
  A member of the enumeration \<open>GranularityType\<close> (rwslib.builders.constants): its name
  and its \<open>.value\<close>, the external string.
\<close>

datatype GranularityType = EnumMember (member_name: string) (member_value: string)

text \<open>
  Modelled from the spec: the declaration of \<open>GranularityType\<close> is not part of core.py.
  The spec describes it as a fixed enumeration whose members have an external string
  value; the member \<open>AllClinicalData\<close>, the default of the constructor, is given the value
  "AllClinicalData", the ODM name of that granularity.
\<close>

definition AllClinicalData :: GranularityType where
  "AllClinicalData = EnumMember ''AllClinicalData'' ''AllClinicalData''"

text \<open>
  The values a caller can pass where the code expects a scalar. \<open>PObject c t\<close> is an
  instance of any other class, named \<open>c\<close> (a float, a list, a user-defined object, ...);
  \<open>t\<close> is the result of Python's truth test on it (\<open>False\<close> for \<open>0.0\<close> or \<open>[]\<close>). Such an
  object is neither a string nor a date, and equals no string.
\<close>

datatype pyval =
    PNone
  | PBool bool
  | PInt int
  | PStr string
  | PDate pydate
  | PDateTime pydatetime
  | PGranularity GranularityType
  | PObject string bool

text \<open>Truth value testing, as \<open>if x:\<close> and \<open>x or y\<close> do it.\<close>

fun truthy :: "pyval \<Rightarrow> bool" where
  "truthy PNone = False"
| "truthy (PBool b) = b"
| "truthy (PInt i) = (i \<noteq> 0)"
| "truthy (PStr s) = (s \<noteq> [])"
| "truthy (PDate d) = True"
| "truthy (PDateTime d) = True"
| "truthy (PGranularity g) = True"
| "truthy (PObject c t) = t"

text \<open>\<open>isinstance(value, (datetime.datetime, datetime.date))\<close>\<close>

fun is_date_or_datetime :: "pyval \<Rightarrow> bool" where
  "is_date_or_datetime (PDate d) = True"
| "is_date_or_datetime (PDateTime d) = True"
| "is_date_or_datetime v = False"

text \<open>\<open>isinstance(value, GranularityType)\<close>\<close>

fun is_GranularityType :: "pyval \<Rightarrow> bool" where
  "is_GranularityType (PGranularity g) = True"
| "is_GranularityType v = False"

subsection \<open>The ISO text form of dates\<close>

definition digit_char :: "nat \<Rightarrow> char" where
  "digit_char n = char_of (48 + n mod 10)"

text \<open>\<open>"%0wd" % n\<close> for a number of at most \<open>w\<close> digits.\<close>

primrec zero_padded :: "nat \<Rightarrow> nat \<Rightarrow> string" where
  "zero_padded 0 n = []"
| "zero_padded (Suc w) n = zero_padded w (n div 10) @ [digit_char n]"

fun date_isoformat :: "pydate \<Rightarrow> string" where
  "date_isoformat (Date y m d) =
     zero_padded 4 y @ ''-'' @ zero_padded 2 m @ ''-'' @ zero_padded 2 d"

text \<open>
  The UTC offset as \<open>isoformat\<close> appends it: nothing for a naive value, otherwise the sign
  and \<open>HH:MM\<close>, followed by \<open>:SS\<close> when the offset is not a whole number of minutes and by
  \<open>.ffffff\<close> when it is not a whole number of seconds.
\<close>

fun utcoffset_format :: "int option \<Rightarrow> string" where
  "utcoffset_format None = []"
| "utcoffset_format (Some off) =
     (let a = nat \<bar>off\<bar>;
          hh = a div 3600000000;
          mm = (a div 60000000) mod 60;
          ss = (a div 1000000) mod 60;
          us = a mod 1000000
      in (if off < 0 then ''-'' else ''+'') @ zero_padded 2 hh @ '':'' @ zero_padded 2 mm
         @ (if ss \<noteq> 0 \<or> us \<noteq> 0
            then '':'' @ zero_padded 2 ss @ (if us \<noteq> 0 then ''.'' @ zero_padded 6 us else [])
            else []))"

fun datetime_isoformat :: "pydatetime \<Rightarrow> string" where
  "datetime_isoformat (DateTime y m d hh mm ss us off) =
     zero_padded 4 y @ ''-'' @ zero_padded 2 m @ ''-'' @ zero_padded 2 d @ ''T''
     @ zero_padded 2 hh @ '':'' @ zero_padded 2 mm @ '':'' @ zero_padded 2 ss
     @ (if us = 0 then [] else ''.'' @ zero_padded 6 us)
     @ utcoffset_format off"

subsection \<open>Exceptions\<close>

text \<open>
  The argument interpolated into a message: \<open>'%s' % value\<close> or
  \<open>'{}'.format(type(value))\<close>.
\<close>

datatype fmt_arg = Str_of pyval | Type_of pyval

text \<open>
  \<open>ValueError msg args\<close> is a \<open>ValueError\<close> whose message is the template \<open>msg\<close>
  filled with \<open>args\<close>. \<open>AssertionError\<close> and \<open>IndexError\<close> are raised by the tree
  builder, \<open>TypeError\<close> by the serializer, \<open>AttributeError\<close> by a method call on an
  object that lacks the method.
\<close>

datatype py_error =
    ValueError string "fmt_arg list"
  | AssertionError string
  | IndexError string
  | TypeError string
  | AttributeError string

subsection \<open>Element trees and the tree builder\<close>

text \<open>
  An element: its tag, its attribute dictionary in insertion order, and its children.
  Character data is not represented; the root builder never emits any.
\<close>

datatype xml = Element (xml_tag: string) (xml_attrib: "(string \<times> pyval) list")
  (xml_children: "xml list")

text \<open>
  \<open>d[k] = v\<close> on a dictionary kept in insertion order: an existing key keeps its place,
  a new key goes last.
\<close>

fun dict_set :: "(string \<times> pyval) list \<Rightarrow> string \<Rightarrow> pyval \<Rightarrow> (string \<times> pyval) list" where
  "dict_set [] k v = [(k, v)]"
| "dict_set ((k', v') # d) k v =
     (if k' = k then (k, v) # d else (k', v') # dict_set d k v)"

text \<open>
  The class \<open>TreeBuilder\<close> of \<open>xml/etree/ElementTree.py\<close>: the stack of open elements
  (innermost first), each with the children appended so far, and the root once the first
  top-level element is complete. \<open>end\<close> pops the stack and asserts the tag; \<open>close\<close> asserts
  that no element is open and that there is a root. The C accelerator that CPython
  substitutes for this class behaves in the same way on a builder that is used from its
  creation for one document, which is how \<open>getroot\<close> uses it; on a builder that already
  holds elements the accelerator does not assert (it raises on a second top-level element
  in \<open>start\<close>, and \<open>close\<close> returns the outer root), so for \<open>build\<close> on such a builder the
  result below is that of the Python class.
\<close>

record TreeBuilder =
  elem_stack :: "(string \<times> (string \<times> pyval) list \<times> xml list) list"
  tb_root :: "xml option"

definition TreeBuilder_new :: TreeBuilder where
  "TreeBuilder_new = \<lparr>elem_stack = [], tb_root = None\<rparr>"

definition tb_start :: "string \<Rightarrow> (string \<times> pyval) list \<Rightarrow> TreeBuilder \<Rightarrow> TreeBuilder" where
  "tb_start tag attrs b = b\<lparr>elem_stack := (tag, attrs, []) # elem_stack b\<rparr>"

definition tb_end :: "string \<Rightarrow> TreeBuilder \<Rightarrow> py_error + TreeBuilder" where
  "tb_end tag b =
     (case elem_stack b of
        [] \<Rightarrow> Inl (IndexError ''pop from empty list'')
      | (t, a, cs) # rest \<Rightarrow>
          if t \<noteq> tag then Inl (AssertionError ''end tag mismatch'')
          else (case rest of
                  [] \<Rightarrow> Inr (b\<lparr>elem_stack := [],
                               tb_root := (case tb_root b of
                                             None \<Rightarrow> Some (Element t a cs)
                                           | Some r \<Rightarrow> Some r)\<rparr>)
                | (t', a', cs') # rest' \<Rightarrow>
                    Inr (b\<lparr>elem_stack := (t', a', cs' @ [Element t a cs]) # rest'\<rparr>)))"

definition tb_close :: "TreeBuilder \<Rightarrow> py_error + xml" where
  "tb_close b =
     (if elem_stack b \<noteq> [] then Inl (AssertionError ''missing end tags'')
      else (case tb_root b of
              None \<Rightarrow> Inl (AssertionError ''missing toplevel element'')
            | Some r \<Rightarrow> Inr r))"

subsection \<open>The child sections\<close>

text \<open>
  Modelled from the spec: the sub-builders Study, ClinicalData and AdminData are not part
  of core.py. Each is "a child object exposing a render into tree builder operation"; a
  child is represented by the element it renders, and its \<open>build\<close> starts that element,
  renders the element's children and ends it.
\<close>

datatype Study = MkStudy (study_element: xml)

datatype ClinicalData = MkClinicalData (clinical_data_element: xml)

datatype AdminData = MkAdminData (admindata_element: xml)

fun render_element :: "xml \<Rightarrow> TreeBuilder \<Rightarrow> py_error + TreeBuilder"
  and render_elements :: "xml list \<Rightarrow> TreeBuilder \<Rightarrow> py_error + TreeBuilder" where
  "render_element (Element t a cs) b =
     (case render_elements cs (tb_start t a b) of
        Inl e \<Rightarrow> Inl e
      | Inr b' \<Rightarrow> tb_end t b')"
| "render_elements [] b = Inr b"
| "render_elements (c # cs) b =
     (case render_element c b of
        Inl e \<Rightarrow> Inl e
      | Inr b' \<Rightarrow> render_elements cs b')"

definition Study_build :: "Study \<Rightarrow> TreeBuilder \<Rightarrow> py_error + TreeBuilder" where
  "Study_build st b = render_element (study_element st) b"

definition ClinicalData_build :: "ClinicalData \<Rightarrow> TreeBuilder \<Rightarrow> py_error + TreeBuilder" where
  "ClinicalData_build cd b = render_element (clinical_data_element cd) b"

definition AdminData_build :: "AdminData \<Rightarrow> TreeBuilder \<Rightarrow> py_error + TreeBuilder" where
  "AdminData_build ad b = render_element (admindata_element ad) b"

text \<open>What \<open>other\<close> can be in \<open>odm << other\<close>.\<close>

datatype pyobj =
    ObjClinicalData ClinicalData
  | ObjStudy Study
  | ObjAdminData AdminData
  | ObjValue pyval

subsection \<open>The state of an ODM object\<close>

record ODM =
  originator :: pyval
  description :: pyval
  creationdatetime :: pyval
  source_system :: pyval
  source_system_version :: pyval
  clinical_data :: "ClinicalData list"
  study :: "Study option"
  filetype :: pyval
  admindata :: "AdminData option"
  fileoid :: pyval
  priv_granularity_type :: "GranularityType option"
  priv_odm_version :: pyval
  priv_as_of_datetime :: pyval

definition FILETYPE_TRANSACTIONAL :: pyval where
  "FILETYPE_TRANSACTIONAL = PStr ''Transactional''"

definition FILETYPE_SNAPSHOT :: pyval where
  "FILETYPE_SNAPSHOT = PStr ''Snapshot''"

definition VALID_ODM_VERSIONS :: "pyval list" where
  "VALID_ODM_VERSIONS = [PStr ''1.2'', PStr ''1.2.1'', PStr ''1.3'', PStr ''1.3.1'', PStr ''1.3.2'']"

text \<open>
  The two things \<open>__init__\<close> reads from outside: the text \<open>now_to_iso8601()\<close> returns and
  the text of a fresh \<open>uuid.uuid4()\<close>.
\<close>

record environment =
  now_to_iso8601 :: string
  uuid4 :: string

text \<open>The arguments of \<open>__init__\<close>, and their defaults for a given originator.\<close>

record ODM_args =
  arg_originator :: pyval
  arg_description :: pyval
  arg_creationdatetime :: pyval
  arg_fileoid :: pyval
  arg_filetype :: pyval
  arg_granularity :: pyval
  arg_source_system :: pyval
  arg_source_system_version :: pyval
  arg_odm_version :: pyval
  arg_as_of_datetime :: pyval

definition default_args :: "pyval \<Rightarrow> ODM_args" where
  "default_args orig =
     \<lparr>arg_originator = orig, arg_description = PStr [], arg_creationdatetime = PNone,
      arg_fileoid = PNone, arg_filetype = PNone,
      arg_granularity = PGranularity AllClinicalData,
      arg_source_system = PNone, arg_source_system_version = PNone,
      arg_odm_version = PNone, arg_as_of_datetime = PNone\<rparr>"

subsection \<open>The property setters\<close>

definition odm_version_msg :: string where
  "odm_version_msg = ''No such supported ODMVersion '' @ [CHR 0x27] @ ''%s'' @ [CHR 0x27]"

definition set_odm_version :: "pyval \<Rightarrow> ODM \<Rightarrow> (py_error + unit) \<times> ODM" where
  "set_odm_version v self =
     (if v \<notin> set VALID_ODM_VERSIONS
      then (Inl (ValueError odm_version_msg [Str_of v]), self)
      else (Inr (), self\<lparr>priv_odm_version := v\<rparr>))"

text \<open>The method call \<open>value.isoformat()\<close>.\<close>

definition isoformat :: "pyval \<Rightarrow> py_error + string" where
  "isoformat v =
     (case v of PDate d \<Rightarrow> Inr (date_isoformat d)
              | PDateTime d \<Rightarrow> Inr (datetime_isoformat d)
              | _ \<Rightarrow> Inl (AttributeError ''isoformat''))"

definition set_as_of_datetime :: "pyval \<Rightarrow> ODM \<Rightarrow> (py_error + unit) \<times> ODM" where
  "set_as_of_datetime v self =
     (if \<not> is_date_or_datetime v
      then (Inl (ValueError ''Unexpected format for AsOfDateTime'' []), self)
      else if is_date_or_datetime v
      then (case isoformat v of
              Inl e \<Rightarrow> (Inl e, self)
            | Inr text \<Rightarrow> (Inr (), self\<lparr>priv_as_of_datetime := PStr text\<rparr>))
      else (Inr (), self))"

definition set_granularity_type :: "pyval \<Rightarrow> ODM \<Rightarrow> (py_error + unit) \<times> ODM" where
  "set_granularity_type v self =
     (case v of
        PGranularity g \<Rightarrow> (Inr (), self\<lparr>priv_granularity_type := Some g\<rparr>)
      | _ \<Rightarrow> (Inl (ValueError ''Should be an instance of GranularityType not {}'' [Type_of v]),
              self))"

subsection \<open>The constructor\<close>

definition ODM_init :: "environment \<Rightarrow> ODM_args \<Rightarrow> py_error + ODM" where
  "ODM_init env a =
     (let self =
        \<lparr>originator = arg_originator a,
         description = arg_description a,
         creationdatetime =
           (if truthy (arg_creationdatetime a) then arg_creationdatetime a
            else PStr (now_to_iso8601 env)),
         source_system = arg_source_system a,
         source_system_version = arg_source_system_version a,
         clinical_data = [],
         study = None,
         filetype =
           (if arg_filetype a = PNone then FILETYPE_TRANSACTIONAL else FILETYPE_SNAPSHOT),
         admindata = None,
         fileoid = (if arg_fileoid a = PNone then PStr (uuid4 env) else arg_fileoid a),
         priv_granularity_type = None,
         priv_odm_version = PStr ''1.3'',
         priv_as_of_datetime = PNone\<rparr>
      in case (if truthy (arg_granularity a)
               then set_granularity_type (arg_granularity a) self
               else (Inr (), self)) of
           (Inl e, _) \<Rightarrow> Inl e
         | (Inr _, self1) \<Rightarrow>
             (case (if truthy (arg_odm_version a)
                    then set_odm_version (arg_odm_version a) self1
                    else (Inr (), self1)) of
                (Inl e, _) \<Rightarrow> Inl e
              | (Inr _, self2) \<Rightarrow>
                  (case (if truthy (arg_as_of_datetime a)
                         then set_as_of_datetime (arg_as_of_datetime a) self2
                         else (Inr (), self2)) of
                     (Inl e, _) \<Rightarrow> Inl e
                   | (Inr _, self3) \<Rightarrow> Inr self3)))"

subsection \<open>Child attachment\<close>

text \<open>
  Modelled from the spec: \<open>set_list_attribute\<close> and \<open>set_single_attribute\<close> belong to the
  base class \<open>ODMElement\<close> (rwslib.builders.common), which is not part of core.py. Following
  the spec's description of the attachment operation, a ClinicalData is "appended to the
  ordered collection; multiple allowed and preserved in the order attached", a Study
  "replaces any previously attached Study", and AdminData is treated as Study; an object
  of another class than the trigger class is ignored. The three functions are the three
  calls that \<open>__lshift__\<close> makes.
\<close>

definition set_list_attribute_clinical_data :: "pyobj \<Rightarrow> ODM \<Rightarrow> ODM" where
  "set_list_attribute_clinical_data other self =
     (case other of
        ObjClinicalData cd \<Rightarrow> self\<lparr>clinical_data := clinical_data self @ [cd]\<rparr>
      | _ \<Rightarrow> self)"

definition set_single_attribute_study :: "pyobj \<Rightarrow> ODM \<Rightarrow> ODM" where
  "set_single_attribute_study other self =
     (case other of
        ObjStudy st \<Rightarrow> self\<lparr>study := Some st\<rparr>
      | _ \<Rightarrow> self)"

definition set_single_attribute_admindata :: "pyobj \<Rightarrow> ODM \<Rightarrow> ODM" where
  "set_single_attribute_admindata other self =
     (case other of
        ObjAdminData ad \<Rightarrow> self\<lparr>admindata := Some ad\<rparr>
      | _ \<Rightarrow> self)"

text \<open>\<open>isinstance(other, (ClinicalData, Study, AdminData))\<close>\<close>

fun is_child :: "pyobj \<Rightarrow> bool" where
  "is_child (ObjClinicalData cd) = True"
| "is_child (ObjStudy st) = True"
| "is_child (ObjAdminData ad) = True"
| "is_child (ObjValue v) = False"

definition ODM_lshift :: "pyobj \<Rightarrow> ODM \<Rightarrow> (py_error + pyobj) \<times> ODM" where
  "ODM_lshift other self =
     (if \<not> is_child other
      then (Inl (ValueError
                   ''ODM object can only receive ClinicalData, Study or AdminData object'' []),
            self)
      else (Inr other,
            set_single_attribute_admindata other
              (set_single_attribute_study other
                 (set_list_attribute_clinical_data other self))))"

text \<open>The statements \<open>odm << o1; ...; odm << on\<close>, one after the other, up to the first that raises.\<close>

fun lshift_all :: "pyobj list \<Rightarrow> ODM \<Rightarrow> (py_error + unit) \<times> ODM" where
  "lshift_all [] self = (Inr (), self)"
| "lshift_all (other # others) self =
     (case ODM_lshift other self of
        (Inl e, self') \<Rightarrow> (Inl e, self')
      | (Inr _, self') \<Rightarrow> lshift_all others self')"

subsection \<open>Rendering\<close>

text \<open>The dictionary \<open>params\<close> that \<open>build\<close> passes to \<open>builder.start\<close>.\<close>

definition build_params :: "ODM \<Rightarrow> (string \<times> pyval) list" where
  "build_params self =
     (let params = [(''ODMVersion'', priv_odm_version self),
                    (''FileType'', filetype self),
                    (''CreationDateTime'', creationdatetime self),
                    (''Originator'', originator self),
                    (''FileOID'', fileoid self),
                    (''xmlns'', PStr ''http://www.cdisc.org/ns/odm/v1.3'')];
          params = (case priv_granularity_type self of
                      Some g \<Rightarrow> dict_set params ''Granularity'' (PStr (member_value g))
                    | None \<Rightarrow> params);
          params = (if truthy (source_system self)
                    then dict_set params ''SourceSystem'' (source_system self)
                    else params);
          params = (if truthy (source_system_version self)
                    then dict_set params ''SourceSystemVersion'' (source_system_version self)
                    else params);
          params = dict_set params ''xmlns:mdsol'' (PStr ''http://www.mdsol.com/ns/odm/metadata'');
          params = (if truthy (description self)
                    then dict_set params ''Description'' (description self)
                    else params);
          params = (if truthy (priv_as_of_datetime self)
                    then dict_set params ''AsOfDateTime'' (priv_as_of_datetime self)
                    else params)
      in params)"

text \<open>The loop \<open>for clinical_data in self.clinical_data: clinical_data.build(builder)\<close>.\<close>

fun build_clinical_data :: "ClinicalData list \<Rightarrow> TreeBuilder \<Rightarrow> py_error + TreeBuilder" where
  "build_clinical_data [] b = Inr b"
| "build_clinical_data (cd # cds) b =
     (case ClinicalData_build cd b of
        Inl e \<Rightarrow> Inl e
      | Inr b' \<Rightarrow> build_clinical_data cds b')"

text \<open>
  \<open>build\<close> returns the value of \<open>builder.close()\<close>; the builder after the call is returned
  with it, and the object's state after the call is the second component.
\<close>

definition ODM_build :: "TreeBuilder \<Rightarrow> ODM \<Rightarrow> (py_error + xml \<times> TreeBuilder) \<times> ODM" where
  "ODM_build builder self =
     (let b0 = tb_start ''ODM'' (build_params self) builder
      in (case (case study self of
                  Some st \<Rightarrow> Study_build st b0
                | None \<Rightarrow> Inr b0) of
            Inl e \<Rightarrow> Inl e
          | Inr b1 \<Rightarrow>
              (case (if clinical_data self \<noteq> []
                     then build_clinical_data (clinical_data self) b1
                     else Inr b1) of
                 Inl e \<Rightarrow> Inl e
               | Inr b2 \<Rightarrow>
                   (case (case admindata self of
                            Some ad \<Rightarrow> AdminData_build ad b2
                          | None \<Rightarrow> Inr b2) of
                      Inl e \<Rightarrow> Inl e
                    | Inr b3 \<Rightarrow>
                        (case tb_end ''ODM'' b3 of
                           Inl e \<Rightarrow> Inl e
                         | Inr b4 \<Rightarrow>
                             (case tb_close b4 of
                                Inl e \<Rightarrow> Inl e
                              | Inr r \<Rightarrow> Inr (r, b4))))),
         self))"

definition ODM_getroot :: "ODM \<Rightarrow> (py_error + xml) \<times> ODM" where
  "ODM_getroot self =
     (case ODM_build TreeBuilder_new self of
        (Inl e, self') \<Rightarrow> (Inl e, self')
      | (Inr (r, b), self') \<Rightarrow> (tb_close b, self'))"

subsection \<open>Text serialization\<close>

definition xml_header :: string where
  \<open>xml_header = ''<?xml version="1.0" encoding="utf-8" ?>'' @ [CHR 0x0A]\<close>

text \<open>
  \<open>__str__\<close>. The helper \<open>indent\<close> (rwslib.builders.common) and \<open>ET.tostring\<close> are not
  part of core.py: they are the parameters \<open>indent\<close>, from the tree to the indented
  document, and \<open>tostring\<close>, from the indented document to its text or an exception.
\<close>

definition ODM_str ::
  "(xml \<Rightarrow> 'd) \<Rightarrow> ('d \<Rightarrow> py_error + string) \<Rightarrow> ODM \<Rightarrow> (py_error + string) \<times> ODM" where
  "ODM_str indent tostring self =
     (case ODM_getroot self of
        (Inl e, self') \<Rightarrow> (Inl e, self')
      | (Inr doc, self') \<Rightarrow>
          (case tostring (indent doc) of
             Inl e \<Rightarrow> (Inl e, self')
           | Inr text \<Rightarrow> (Inr (xml_header @ text), self')))"

subsection \<open>Sequences of operations\<close>

text \<open>The operations the class defines on a constructed object.\<close>

datatype odm_op =
    Set_odm_version pyval
  | Set_as_of_datetime pyval
  | Set_granularity_type pyval
  | Lshift pyobj
  | Getroot
  | Build TreeBuilder
  | Str

fun apply_op ::
  "(xml \<Rightarrow> 'd) \<Rightarrow> ('d \<Rightarrow> py_error + string) \<Rightarrow> odm_op \<Rightarrow> ODM \<Rightarrow> ODM" where
  "apply_op ind ts (Set_odm_version v) self = snd (set_odm_version v self)"
| "apply_op ind ts (Set_as_of_datetime v) self = snd (set_as_of_datetime v self)"
| "apply_op ind ts (Set_granularity_type v) self = snd (set_granularity_type v self)"
| "apply_op ind ts (Lshift other) self = snd (ODM_lshift other self)"
| "apply_op ind ts Getroot self = snd (ODM_getroot self)"
| "apply_op ind ts (Build b) self = snd (ODM_build b self)"
| "apply_op ind ts Str self = snd (ODM_str ind ts self)"

fun apply_ops ::
  "(xml \<Rightarrow> 'd) \<Rightarrow> ('d \<Rightarrow> py_error + string) \<Rightarrow> odm_op list \<Rightarrow> ODM \<Rightarrow> ODM" where
  "apply_ops ind ts [] self = self"
| "apply_ops ind ts (op # ops) self = apply_ops ind ts ops (apply_op ind ts op self)"

section \<open>Properties\<close>

subsection \<open>Rendering a child appends its element to the open element\<close>

lemma render_append:
  "elem_stack b = (t, a, cs) # rest \<Longrightarrow>
     render_element e b = Inr (b\<lparr>elem_stack := (t, a, cs @ [e]) # rest\<rparr>)"
  "elem_stack b = (t, a, cs) # rest \<Longrightarrow>
     render_elements es b = Inr (b\<lparr>elem_stack := (t, a, cs @ es) # rest\<rparr>)"
proof (induction e b and es b arbitrary: t a cs rest and t a cs rest rule: render_element_render_elements.induct)
  case (1 t' a' cs' b)
  have "elem_stack (tb_start t' a' b) = (t', a', []) # (t, a, cs) # rest"
    using 1(2) by (simp add: tb_start_def)
  from 1(1)[OF this] show ?case using 1(2)
    by (simp add: tb_end_def tb_start_def)
next
  case (2 b)
  then show ?case by simp
next
  case (3 c cs' b)
  from 3(1)[OF 3(3)] have r: "render_element c b = Inr (b\<lparr>elem_stack := (t, a, cs @ [c]) # rest\<rparr>)" .
  have "elem_stack (b\<lparr>elem_stack := (t, a, cs @ [c]) # rest\<rparr>) = (t, a, cs @ [c]) # rest" by simp
  from 3(2)[OF r this] show ?case using r by simp
qed

lemma build_clinical_data_append:
  "elem_stack b = (t, a, cs) # rest \<Longrightarrow>
     build_clinical_data cds b =
       Inr (b\<lparr>elem_stack := (t, a, cs @ map clinical_data_element cds) # rest\<rparr>)"
proof (induction cds arbitrary: b cs)
  case Nil
  then show ?case by simp
next
  case (Cons cd cds)
  have r: "ClinicalData_build cd b =
             Inr (b\<lparr>elem_stack := (t, a, cs @ [clinical_data_element cd]) # rest\<rparr>)"
    using Cons.prems by (simp add: ClinicalData_build_def render_append(1))
  have "elem_stack (b\<lparr>elem_stack := (t, a, cs @ [clinical_data_element cd]) # rest\<rparr>) =
          (t, a, cs @ [clinical_data_element cd]) # rest" by simp
  from Cons.IH[OF this] show ?case using r by simp
qed

lemma ODM_build_fresh:
  assumes "elem_stack b = []" and "tb_root b = None"
  shows "ODM_build b self =
     (Inr (Element ''ODM'' (build_params self)
             ((case study self of None \<Rightarrow> [] | Some st \<Rightarrow> [study_element st])
              @ map clinical_data_element (clinical_data self)
              @ (case admindata self of None \<Rightarrow> [] | Some ad \<Rightarrow> [admindata_element ad])),
           b\<lparr>tb_root :=
               Some (Element ''ODM'' (build_params self)
                 ((case study self of None \<Rightarrow> [] | Some st \<Rightarrow> [study_element st])
                  @ map clinical_data_element (clinical_data self)
                  @ (case admindata self of None \<Rightarrow> [] | Some ad \<Rightarrow> [admindata_element ad])))\<rparr>),
      self)"
proof -
  define p where "p = build_params self"
  define b0 where "b0 = tb_start ''ODM'' p b"
  define c1 where "c1 = (case study self of None \<Rightarrow> [] | Some st \<Rightarrow> [study_element st])"
  define c3 where "c3 = (case admindata self of None \<Rightarrow> [] | Some ad \<Rightarrow> [admindata_element ad])"
  have s0: "elem_stack b0 = (''ODM'', p, []) # []"
    using assms by (simp add: b0_def tb_start_def)
  define b1 where "b1 = b0\<lparr>elem_stack := (''ODM'', p, [] @ c1) # []\<rparr>"
  have r1: "(case study self of Some st \<Rightarrow> Study_build st b0 | None \<Rightarrow> Inr b0) = Inr b1"
    using s0 by (cases "study self") (simp_all add: b1_def c1_def Study_build_def render_append(1)[OF s0])
  have s1: "elem_stack b1 = (''ODM'', p, c1) # []" by (simp add: b1_def)
  define b2 where "b2 = b1\<lparr>elem_stack := (''ODM'', p, c1 @ map clinical_data_element (clinical_data self)) # []\<rparr>"
  have r2: "(if clinical_data self \<noteq> [] then build_clinical_data (clinical_data self) b1 else Inr b1) = Inr b2"
    using s1 by (simp add: build_clinical_data_append[OF s1] b2_def)
  have s2: "elem_stack b2 = (''ODM'', p, c1 @ map clinical_data_element (clinical_data self)) # []"
    by (simp add: b2_def)
  define b3 where "b3 = b2\<lparr>elem_stack := (''ODM'', p, (c1 @ map clinical_data_element (clinical_data self)) @ c3) # []\<rparr>"
  have r3: "(case admindata self of Some ad \<Rightarrow> AdminData_build ad b2 | None \<Rightarrow> Inr b2) = Inr b3"
    using s2 by (cases "admindata self") (simp_all add: b3_def c3_def AdminData_build_def render_append(1)[OF s2])
  define E where "E = Element ''ODM'' p (c1 @ map clinical_data_element (clinical_data self) @ c3)"
  have r4: "tb_end ''ODM'' b3 = Inr (b\<lparr>tb_root := Some E\<rparr>)"
    using assms by (simp add: tb_end_def b3_def b2_def b1_def b0_def tb_start_def E_def)
  have r5: "tb_close (b\<lparr>tb_root := Some E\<rparr>) = Inr E"
    using assms by (simp add: tb_close_def)
  have "ODM_build b self = (Inr (E, b\<lparr>tb_root := Some E\<rparr>), self)"
    unfolding ODM_build_def Let_def p_def[symmetric] b0_def[symmetric]
    by (simp only: r1 r2 r3 r4 r5 sum.case)
  then show ?thesis by (simp add: E_def p_def c1_def c3_def)
qed

lemma ODM_getroot_eq:
  "ODM_getroot self =
     (Inr (Element ''ODM'' (build_params self)
             ((case study self of None \<Rightarrow> [] | Some st \<Rightarrow> [study_element st])
              @ map clinical_data_element (clinical_data self)
              @ (case admindata self of None \<Rightarrow> [] | Some ad \<Rightarrow> [admindata_element ad]))),
      self)"
  by (simp add: ODM_getroot_def ODM_build_fresh TreeBuilder_new_def tb_close_def)

lemma map_of_dict_set:
  "map_of (dict_set d k v) k' = (if k' = k then Some v else map_of d k')"
  by (induction d k v rule: dict_set.induct) auto

lemma keys_dict_set: "fst ` set (dict_set d k v) = insert k (fst ` set d)"
  by (induction d k v rule: dict_set.induct) auto

lemma distinct_dict_set:
  "distinct (map fst d) \<Longrightarrow> distinct (map fst (dict_set d k v))"
  by (induction d k v rule: dict_set.induct) (auto simp: keys_dict_set)

subsection \<open>The attribute dictionary of the root\<close>

lemma key_in_dict_set:
  "(k' \<in> fst ` set (dict_set d k v)) = (k' = k \<or> k' \<in> fst ` set d)"
  by (simp add: keys_dict_set)

lemma key_in_if_dict_set:
  "(k' \<in> fst ` set (if c then dict_set d k v else d)) = (c \<and> k' = k \<or> k' \<in> fst ` set d)"
  by (simp add: keys_dict_set)

lemma key_in_case_dict_set:
  "(k' \<in> fst ` set (case g of Some x \<Rightarrow> dict_set d k (f x) | None \<Rightarrow> d)) =
     (g \<noteq> None \<and> k' = k \<or> k' \<in> fst ` set d)"
  by (cases g) (simp_all add: keys_dict_set)

lemma distinct_if_dict_set:
  "distinct (map fst d) \<Longrightarrow> distinct (map fst (if c then dict_set d k v else d))"
  by (simp add: distinct_dict_set)

lemma distinct_case_dict_set:
  "distinct (map fst d) \<Longrightarrow>
     distinct (map fst (case g of Some x \<Rightarrow> dict_set d k (f x) | None \<Rightarrow> d))"
  by (cases g) (simp_all add: distinct_dict_set)

lemma map_of_if_dict_set:
  "map_of (if c then dict_set d k v else d) k' =
     (if c \<and> k' = k then Some v else map_of d k')"
  by (simp add: map_of_dict_set)

lemma map_of_case_dict_set:
  "map_of (case g of Some x \<Rightarrow> dict_set d k (f x) | None \<Rightarrow> d) k' =
     (case g of Some x \<Rightarrow> if k' = k then Some (f x) else map_of d k' | None \<Rightarrow> map_of d k')"
  by (cases g) (simp_all add: map_of_dict_set)

lemmas dict_lookup_simps = map_of_dict_set map_of_if_dict_set map_of_case_dict_set

lemmas dict_key_simps = key_in_dict_set key_in_if_dict_set key_in_case_dict_set

lemma build_params_lookup:
  "map_of (build_params self) ''FileOID'' = Some (fileoid self)"
  "map_of (build_params self) ''ODMVersion'' = Some (priv_odm_version self)"
  "map_of (build_params self) ''FileType'' = Some (filetype self)"
  "map_of (build_params self) ''CreationDateTime'' = Some (creationdatetime self)"
  "map_of (build_params self) ''Originator'' = Some (originator self)"
  "map_of (build_params self) ''xmlns'' = Some (PStr ''http://www.cdisc.org/ns/odm/v1.3'')"
  "map_of (build_params self) ''xmlns:mdsol'' = Some (PStr ''http://www.mdsol.com/ns/odm/metadata'')"
  unfolding build_params_def Let_def dict_lookup_simps
  by (simp_all split: option.split)

lemma build_params_granularity:
  "map_of (build_params self) ''Granularity'' =
     (case priv_granularity_type self of None \<Rightarrow> None | Some g \<Rightarrow> Some (PStr (member_value g)))"
  unfolding build_params_def Let_def dict_lookup_simps
  by (simp split: option.split)

lemma build_params_optional:
  "(''Description'' \<in> fst ` set (build_params self)) = truthy (description self)"
  "(''Granularity'' \<in> fst ` set (build_params self)) = (priv_granularity_type self \<noteq> None)"
  "(''SourceSystem'' \<in> fst ` set (build_params self)) = truthy (source_system self)"
  "(''SourceSystemVersion'' \<in> fst ` set (build_params self)) = truthy (source_system_version self)"
  "(''AsOfDateTime'' \<in> fst ` set (build_params self)) = truthy (priv_as_of_datetime self)"
  unfolding build_params_def Let_def dict_key_simps
  by simp_all

lemma build_params_distinct: "distinct (map fst (build_params self))"
  unfolding build_params_def Let_def
  by (intro distinct_if_dict_set distinct_case_dict_set distinct_dict_set) simp

text \<open>
  C1. For every state of an ODM object, \<open>getroot\<close> returns an element named ODM whose
  attribute dictionary (with pairwise different keys) always holds FileOID, ODMVersion,
  FileType, CreationDateTime and Originator with the values of the object's fields, the
  default namespace declaration \<open>xmlns\<close> with the ODM 1.3 URI, and the vendor namespace
  declaration \<open>xmlns:mdsol\<close>; and it holds Description, Granularity, SourceSystem,
  SourceSystemVersion and AsOfDateTime exactly when the corresponding field is set and
  non-empty, that is when Python's truth test on the field succeeds (it fails for \<open>None\<close>,
  the empty string, zero, and objects such as \<open>0.0\<close> or an empty list).
\<close>

theorem getroot_attributes:
  "\<exists>a cs. fst (ODM_getroot self) = Inr (Element ''ODM'' a cs)
     \<and> distinct (map fst a)
     \<and> map_of a ''FileOID'' = Some (fileoid self)
     \<and> map_of a ''ODMVersion'' = Some (priv_odm_version self)
     \<and> map_of a ''FileType'' = Some (filetype self)
     \<and> map_of a ''CreationDateTime'' = Some (creationdatetime self)
     \<and> map_of a ''Originator'' = Some (originator self)
     \<and> map_of a ''xmlns'' = Some (PStr ''http://www.cdisc.org/ns/odm/v1.3'')
     \<and> map_of a ''xmlns:mdsol'' = Some (PStr ''http://www.mdsol.com/ns/odm/metadata'')
     \<and> (''Description'' \<in> fst ` set a) = truthy (description self)
     \<and> (''Granularity'' \<in> fst ` set a) = (priv_granularity_type self \<noteq> None)
     \<and> (''SourceSystem'' \<in> fst ` set a) = truthy (source_system self)
     \<and> (''SourceSystemVersion'' \<in> fst ` set a) = truthy (source_system_version self)
     \<and> (''AsOfDateTime'' \<in> fst ` set a) = truthy (priv_as_of_datetime self)"
  by (simp add: ODM_getroot_eq build_params_distinct build_params_lookup
        build_params_optional)

theorem getroot_attributes_witness:
  "''SourceSystem'' \<in> fst ` set (xml_attrib (projr (fst (ODM_getroot
       (projr (ODM_init \<lparr>now_to_iso8601 = ''2020-01-01T00:00:00'', uuid4 = ''f0e1''\<rparr>
          ((default_args (PStr ''SPONSOR''))
             \<lparr>arg_source_system := PStr ''RAVE'',
              arg_source_system_version := PObject ''float'' False\<rparr>)))))))
   \<and> ''SourceSystemVersion'' \<notin> fst ` set (xml_attrib (projr (fst (ODM_getroot
       (projr (ODM_init \<lparr>now_to_iso8601 = ''2020-01-01T00:00:00'', uuid4 = ''f0e1''\<rparr>
          ((default_args (PStr ''SPONSOR''))
             \<lparr>arg_source_system := PStr ''RAVE'',
              arg_source_system_version := PObject ''float'' False\<rparr>)))))))
   \<and> ''Description'' \<notin> fst ` set (xml_attrib (projr (fst (ODM_getroot
       (projr (ODM_init \<lparr>now_to_iso8601 = ''2020-01-01T00:00:00'', uuid4 = ''f0e1''\<rparr>
          ((default_args (PStr ''SPONSOR''))
             \<lparr>arg_source_system := PStr ''RAVE'',
              arg_source_system_version := PObject ''float'' False\<rparr>)))))))
   \<and> map_of (xml_attrib (projr (fst (ODM_getroot
       (projr (ODM_init \<lparr>now_to_iso8601 = ''2020-01-01T00:00:00'', uuid4 = ''f0e1''\<rparr>
          ((default_args (PStr ''SPONSOR''))
             \<lparr>arg_source_system := PStr ''RAVE'',
              arg_source_system_version := PObject ''float'' False\<rparr>)))))))
       ''FileOID'' = Some (PStr ''f0e1'')"
proof -
  let ?self = "projr (ODM_init \<lparr>now_to_iso8601 = ''2020-01-01T00:00:00'', uuid4 = ''f0e1''\<rparr>
          ((default_args (PStr ''SPONSOR''))
             \<lparr>arg_source_system := PStr ''RAVE'',
              arg_source_system_version := PObject ''float'' False\<rparr>))"
  have fields: "source_system ?self = PStr ''RAVE''"
    "source_system_version ?self = PObject ''float'' False"
    "description ?self = PStr []" "fileoid ?self = PStr ''f0e1''"
    by (simp_all add: ODM_init_def Let_def default_args_def set_granularity_type_def)
  from getroot_attributes [of ?self] obtain a cs where
    r: "fst (ODM_getroot ?self) = Inr (Element ''ODM'' a cs)"
    and k: "map_of a ''FileOID'' = Some (fileoid ?self)"
      "(''Description'' \<in> fst ` set a) = truthy (description ?self)"
      "(''SourceSystem'' \<in> fst ` set a) = truthy (source_system ?self)"
      "(''SourceSystemVersion'' \<in> fst ` set a) = truthy (source_system_version ?self)"
    by blast
  have a: "xml_attrib (projr (fst (ODM_getroot ?self))) = a"
    by (simp only: r sum.sel xml.sel)
  from k show ?thesis
    by (simp only: a fields truthy.simps) simp
qed

subsection \<open>The children of the rendered root\<close>

text \<open>
  C2. For every state of an ODM object, whatever the order in which its children were
  attached, \<open>getroot\<close> returns an element named ODM whose children are, in this order:
  the element of the Study if there is one, the elements of the ClinicalData sections in
  the order of the list \<open>clinical_data\<close>, and the element of the AdminData if there is one.
\<close>

theorem getroot_children_order:
  "\<exists>a. fst (ODM_getroot self) =
     Inr (Element ''ODM'' a
            ((case study self of None \<Rightarrow> [] | Some st \<Rightarrow> [study_element st])
             @ map clinical_data_element (clinical_data self)
             @ (case admindata self of None \<Rightarrow> [] | Some ad \<Rightarrow> [admindata_element ad])))"
  by (simp add: ODM_getroot_eq)

subsection \<open>The schema version\<close>

lemma set_odm_version_valid:
  "v \<in> set VALID_ODM_VERSIONS \<Longrightarrow>
     set_odm_version v self = (Inr (), self\<lparr>priv_odm_version := v\<rparr>)"
  by (simp add: set_odm_version_def)

lemma set_odm_version_invalid:
  "v \<notin> set VALID_ODM_VERSIONS \<Longrightarrow>
     set_odm_version v self = (Inl (ValueError odm_version_msg [Str_of v]), self)"
  by (simp add: set_odm_version_def)

text \<open>The setters as equations without \<open>isoformat\<close> and without a case on the error.\<close>

lemma set_granularity_type_eq:
  "set_granularity_type g self =
     (if is_GranularityType g
      then (Inr (),
            self\<lparr>priv_granularity_type :=
                   (case g of PGranularity x \<Rightarrow> Some x | _ \<Rightarrow> None)\<rparr>)
      else (Inl (ValueError ''Should be an instance of GranularityType not {}'' [Type_of g]),
            self))"
  by (cases g) (simp_all add: set_granularity_type_def)

lemma set_as_of_datetime_eq:
  "set_as_of_datetime d self =
     (if is_date_or_datetime d
      then (Inr (),
            self\<lparr>priv_as_of_datetime :=
                   (case d of PDate x \<Rightarrow> PStr (date_isoformat x)
                            | PDateTime x \<Rightarrow> PStr (datetime_isoformat x)
                            | _ \<Rightarrow> PNone)\<rparr>)
      else (Inl (ValueError ''Unexpected format for AsOfDateTime'' []), self))"
  by (cases d) (simp_all add: set_as_of_datetime_def isoformat_def)

lemmas setter_eqs = set_granularity_type_eq set_odm_version_def set_as_of_datetime_eq

lemma ODM_init_odm_version_invalid:
  assumes g: "\<not> truthy (arg_granularity a) \<or> is_GranularityType (arg_granularity a)"
    and v: "arg_odm_version a = PStr v" "v \<noteq> []" "PStr v \<notin> set VALID_ODM_VERSIONS"
  shows "ODM_init env a = Inl (ValueError odm_version_msg [Str_of (PStr v)])"
  using g v
  by (auto simp: ODM_init_def Let_def setter_eqs)

lemma ODM_init_odm_version_valid:
  assumes g: "\<not> truthy (arg_granularity a) \<or> is_GranularityType (arg_granularity a)"
    and d: "\<not> truthy (arg_as_of_datetime a) \<or> is_date_or_datetime (arg_as_of_datetime a)"
    and v: "arg_odm_version a = PStr v" "PStr v \<in> set VALID_ODM_VERSIONS"
  shows "\<exists>self. ODM_init env a = Inr self \<and> priv_odm_version self = PStr v"
proof -
  have ne: "v \<noteq> []" using v(2) by (auto simp: VALID_ODM_VERSIONS_def)
  show ?thesis
    using g d v ne
    by (auto simp: ODM_init_def Let_def setter_eqs)
qed

lemma ODM_init_odm_version_empty:
  assumes g: "\<not> truthy (arg_granularity a) \<or> is_GranularityType (arg_granularity a)"
    and d: "\<not> truthy (arg_as_of_datetime a) \<or> is_date_or_datetime (arg_as_of_datetime a)"
    and v: "arg_odm_version a = PStr []"
  shows "\<exists>self. ODM_init env a = Inr self \<and> priv_odm_version self = PStr ''1.3''"
  using g d v
  by (auto simp: ODM_init_def Let_def setter_eqs)

lemma ODM_init_granularity_raises:
  assumes "truthy (arg_granularity a)" "\<not> is_GranularityType (arg_granularity a)"
  shows "ODM_init env a =
           Inl (ValueError ''Should be an instance of GranularityType not {}''
                  [Type_of (arg_granularity a)])"
  using assms by (auto simp: ODM_init_def Let_def setter_eqs)

lemma ODM_init_odm_version_raises:
  assumes "arg_odm_version a = PStr v" "v \<noteq> []" "PStr v \<notin> set VALID_ODM_VERSIONS"
  shows "\<exists>msg args. ODM_init env a = Inl (ValueError msg args)"
  using assms by (auto simp: ODM_init_def Let_def setter_eqs)

text \<open>
  C3, as stated, fails for the constructor: the empty string is outside the allow-list,
  yet \<open>ODM(originator, odm_version="")\<close> raises nothing, because \<open>__init__\<close> calls the
  setter only under \<open>if odm_version:\<close>; the object is built with the default "1.3".
\<close>

theorem odm_version_empty_string_counterexample:
  "PStr [] \<notin> set VALID_ODM_VERSIONS
   \<and> \<not> isl (ODM_init \<lparr>now_to_iso8601 = ''2020-01-01T00:00:00'', uuid4 = ''f0e1''\<rparr>
              ((default_args (PStr ''SPONSOR''))\<lparr>arg_odm_version := PStr []\<rparr>))
   \<and> priv_odm_version
        (projr (ODM_init \<lparr>now_to_iso8601 = ''2020-01-01T00:00:00'', uuid4 = ''f0e1''\<rparr>
                  ((default_args (PStr ''SPONSOR''))\<lparr>arg_odm_version := PStr []\<rparr>)))
       = PStr ''1.3''"
  by (simp add: VALID_ODM_VERSIONS_def ODM_init_def Let_def default_args_def
        set_granularity_type_def)

text \<open>
  C3, amended. For every string of the allow-list the setter \<open>odm_version\<close> succeeds and
  stores it, and for every other string it raises the \<open>ValueError\<close> and leaves the whole
  state, hence the stored version, unchanged. The constructor raises a \<open>ValueError\<close> for
  every non-empty string outside the list: the setter's one, when its granularity
  argument is acceptable (false or a \<open>GranularityType\<close>; otherwise the granularity setter
  raises first). When its granularity and as-of arguments are both acceptable (false, or
  a \<open>GranularityType\<close> and a date), the constructor succeeds and stores every string of the
  list, and it takes the empty string as "no version given": it succeeds with the
  default "1.3".
\<close>

theorem odm_version_assignment:
  "(PStr v \<in> set VALID_ODM_VERSIONS \<longrightarrow>
      set_odm_version (PStr v) self = (Inr (), self\<lparr>priv_odm_version := PStr v\<rparr>))
   \<and> (PStr v \<notin> set VALID_ODM_VERSIONS \<longrightarrow>
      set_odm_version (PStr v) self =
        (Inl (ValueError odm_version_msg [Str_of (PStr v)]), self))
   \<and> (arg_odm_version a = PStr v \<and> v \<noteq> [] \<and> PStr v \<notin> set VALID_ODM_VERSIONS \<longrightarrow>
      (\<exists>msg args. ODM_init env a = Inl (ValueError msg args)))
   \<and> (truthy (arg_granularity a) \<and> \<not> is_GranularityType (arg_granularity a) \<longrightarrow>
      ODM_init env a =
        Inl (ValueError ''Should be an instance of GranularityType not {}''
               [Type_of (arg_granularity a)]))
   \<and> ((\<not> truthy (arg_granularity a) \<or> is_GranularityType (arg_granularity a))
        \<and> arg_odm_version a = PStr v \<longrightarrow>
      (v \<noteq> [] \<and> PStr v \<notin> set VALID_ODM_VERSIONS \<longrightarrow>
         ODM_init env a = Inl (ValueError odm_version_msg [Str_of (PStr v)]))
      \<and> ((\<not> truthy (arg_as_of_datetime a) \<or> is_date_or_datetime (arg_as_of_datetime a)) \<longrightarrow>
           (PStr v \<in> set VALID_ODM_VERSIONS \<longrightarrow>
              (\<exists>s. ODM_init env a = Inr s \<and> priv_odm_version s = PStr v))
           \<and> (v = [] \<longrightarrow>
              (\<exists>s. ODM_init env a = Inr s \<and> priv_odm_version s = PStr ''1.3''))))"
  using set_odm_version_valid set_odm_version_invalid ODM_init_odm_version_invalid
    ODM_init_odm_version_valid ODM_init_odm_version_empty ODM_init_odm_version_raises
    ODM_init_granularity_raises
  by blast

theorem odm_version_assignment_witness:
  "set_odm_version (PStr ''1.3.1'')
       (projr (ODM_init \<lparr>now_to_iso8601 = ''2020-01-01T00:00:00'', uuid4 = ''f0e1''\<rparr>
                 (default_args (PStr ''SPONSOR''))))
     = (Inr (),
        (projr (ODM_init \<lparr>now_to_iso8601 = ''2020-01-01T00:00:00'', uuid4 = ''f0e1''\<rparr>
                  (default_args (PStr ''SPONSOR''))))\<lparr>priv_odm_version := PStr ''1.3.1''\<rparr>)
   \<and> set_odm_version (PStr ''9.9'')
       (projr (ODM_init \<lparr>now_to_iso8601 = ''2020-01-01T00:00:00'', uuid4 = ''f0e1''\<rparr>
                 (default_args (PStr ''SPONSOR''))))
     = (Inl (ValueError odm_version_msg [Str_of (PStr ''9.9'')]),
        projr (ODM_init \<lparr>now_to_iso8601 = ''2020-01-01T00:00:00'', uuid4 = ''f0e1''\<rparr>
                 (default_args (PStr ''SPONSOR''))))
   \<and> ODM_init \<lparr>now_to_iso8601 = ''2020-01-01T00:00:00'', uuid4 = ''f0e1''\<rparr>
        ((default_args (PStr ''SPONSOR''))\<lparr>arg_odm_version := PStr ''9.9''\<rparr>)
     = Inl (ValueError odm_version_msg [Str_of (PStr ''9.9'')])
   \<and> priv_odm_version
        (projr (ODM_init \<lparr>now_to_iso8601 = ''2020-01-01T00:00:00'', uuid4 = ''f0e1''\<rparr>
                  ((default_args (PStr ''SPONSOR''))\<lparr>arg_odm_version := PStr ''1.2.1''\<rparr>)))
     = PStr ''1.2.1''
   \<and> ODM_init \<lparr>now_to_iso8601 = ''2020-01-01T00:00:00'', uuid4 = ''f0e1''\<rparr>
        ((default_args (PStr ''SPONSOR''))
           \<lparr>arg_granularity := PStr ''x'', arg_odm_version := PStr ''9.9''\<rparr>)
     = Inl (ValueError ''Should be an instance of GranularityType not {}''
              [Type_of (PStr ''x'')])"
proof -
  let ?env = "\<lparr>now_to_iso8601 = ''2020-01-01T00:00:00'', uuid4 = ''f0e1''\<rparr>"
  let ?args = "default_args (PStr ''SPONSOR'')"
  let ?self = "projr (ODM_init ?env ?args)"
  let ?bad = "?args\<lparr>arg_granularity := PStr ''x'', arg_odm_version := PStr ''9.9''\<rparr>"
  have in_list: "PStr ''1.3.1'' \<in> set VALID_ODM_VERSIONS" "PStr ''1.2.1'' \<in> set VALID_ODM_VERSIONS"
    by (simp_all add: VALID_ODM_VERSIONS_def)
  have out_list: "PStr ''9.9'' \<notin> set VALID_ODM_VERSIONS"
    by (simp add: VALID_ODM_VERSIONS_def)
  have g: "\<not> truthy (arg_granularity (?args\<lparr>arg_odm_version := PStr ''9.9''\<rparr>))
             \<or> is_GranularityType (arg_granularity (?args\<lparr>arg_odm_version := PStr ''9.9''\<rparr>))"
          "\<not> truthy (arg_granularity (?args\<lparr>arg_odm_version := PStr ''1.2.1''\<rparr>))
             \<or> is_GranularityType (arg_granularity (?args\<lparr>arg_odm_version := PStr ''1.2.1''\<rparr>))"
          "\<not> truthy (arg_as_of_datetime (?args\<lparr>arg_odm_version := PStr ''1.2.1''\<rparr>))
             \<or> is_date_or_datetime (arg_as_of_datetime (?args\<lparr>arg_odm_version := PStr ''1.2.1''\<rparr>))"
    by (simp_all add: default_args_def)
  from odm_version_assignment [of "''1.3.1''" ?self ?args ?env] in_list(1)
  have a: "set_odm_version (PStr ''1.3.1'') ?self = (Inr (), ?self\<lparr>priv_odm_version := PStr ''1.3.1''\<rparr>)"
    by blast
  from odm_version_assignment
         [of "''9.9''" ?self "?args\<lparr>arg_odm_version := PStr ''9.9''\<rparr>" ?env] out_list g(1)
  have b: "set_odm_version (PStr ''9.9'') ?self
             = (Inl (ValueError odm_version_msg [Str_of (PStr ''9.9'')]), ?self)"
    and c: "ODM_init ?env (?args\<lparr>arg_odm_version := PStr ''9.9''\<rparr>)
             = Inl (ValueError odm_version_msg [Str_of (PStr ''9.9'')])"
    by simp_all
  from odm_version_assignment
         [of "''1.2.1''" ?self "?args\<lparr>arg_odm_version := PStr ''1.2.1''\<rparr>" ?env] in_list(2) g(2,3)
  have d: "priv_odm_version (projr (ODM_init ?env (?args\<lparr>arg_odm_version := PStr ''1.2.1''\<rparr>)))
             = PStr ''1.2.1''"
    by auto
  have bad: "truthy (arg_granularity ?bad)" "\<not> is_GranularityType (arg_granularity ?bad)"
    "arg_granularity ?bad = PStr ''x''"
    by simp_all
  from odm_version_assignment [of "''9.9''" ?self ?bad ?env] bad(1,2)
  have "ODM_init ?env ?bad =
          Inl (ValueError ''Should be an instance of GranularityType not {}''
                 [Type_of (arg_granularity ?bad)])"
    by blast
  then have e: "ODM_init ?env ?bad =
          Inl (ValueError ''Should be an instance of GranularityType not {}''
                 [Type_of (PStr ''x'')])"
    by (simp only: bad(3))
  from a b c d e show ?thesis by blast
qed

subsection \<open>The as-of timestamp\<close>

text \<open>The padded numbers of \<open>isoformat\<close>, digit by digit.\<close>

lemma four_Suc: "(4::nat) = Suc (Suc (Suc (Suc 0)))"
  by simp

lemma six_Suc: "(6::nat) = Suc (Suc (Suc (Suc (Suc (Suc 0)))))"
  by simp

lemma zero_padded_2: "zero_padded 2 n = [digit_char (n div 10), digit_char n]"
  by (simp only: numeral_2_eq_2 zero_padded.simps append_Nil append_Cons)

lemma zero_padded_4:
  "zero_padded 4 n =
     [digit_char (n div 1000), digit_char (n div 100), digit_char (n div 10), digit_char n]"
  by (simp only: four_Suc zero_padded.simps append_Nil append_Cons)
     (simp add: div_mult2_eq [symmetric])

lemma zero_padded_6:
  "zero_padded 6 n =
     [digit_char (n div 100000), digit_char (n div 10000), digit_char (n div 1000),
      digit_char (n div 100), digit_char (n div 10), digit_char n]"
  by (simp only: six_Suc zero_padded.simps append_Nil append_Cons)
     (simp add: div_mult2_eq [symmetric])

lemma char_of_digits:
  "char_of (48::nat) = CHR ''0''" "char_of (49::nat) = CHR ''1''"
  "char_of (50::nat) = CHR ''2''" "char_of (51::nat) = CHR ''3''"
  "char_of (52::nat) = CHR ''4''" "char_of (53::nat) = CHR ''5''"
  "char_of (54::nat) = CHR ''6''" "char_of (55::nat) = CHR ''7''"
  "char_of (56::nat) = CHR ''8''" "char_of (57::nat) = CHR ''9''"
  by code_simp+

lemmas iso_eval =
  zero_padded_2 zero_padded_4 zero_padded_6 digit_char_def char_of_digits Let_def

text \<open>
  C4. For every date and every date-time value, naive or with a UTC offset, the setter
  \<open>as_of_datetime\<close> succeeds and the stored value is the text \<open>value.isoformat()\<close>: the
  digits \<open>YYYY-MM-DD\<close> for a date and \<open>YYYY-MM-DDTHH:MM:SS\<close> for a date-time, followed by
  \<open>.ffffff\<close> when the microseconds are not zero and by the UTC offset when there is one.
  For every value of another type (a string, an integer, ...) the setter raises the
  \<open>ValueError\<close> and leaves the whole state, hence the stored as-of value, unchanged.
\<close>

theorem as_of_datetime_assignment:
  "set_as_of_datetime (PDate dv) self =
     (Inr (), self\<lparr>priv_as_of_datetime := PStr (date_isoformat dv)\<rparr>)
   \<and> set_as_of_datetime (PDateTime dt) self =
     (Inr (), self\<lparr>priv_as_of_datetime := PStr (datetime_isoformat dt)\<rparr>)
   \<and> (\<not> is_date_or_datetime v \<longrightarrow>
        set_as_of_datetime v self =
          (Inl (ValueError ''Unexpected format for AsOfDateTime'' []), self))
   \<and> date_isoformat (Date y m d) =
       [digit_char (y div 1000), digit_char (y div 100), digit_char (y div 10), digit_char y,
        CHR ''-'', digit_char (m div 10), digit_char m,
        CHR ''-'', digit_char (d div 10), digit_char d]
   \<and> datetime_isoformat (DateTime y m d hh mi ss us off) =
       [digit_char (y div 1000), digit_char (y div 100), digit_char (y div 10), digit_char y,
        CHR ''-'', digit_char (m div 10), digit_char m,
        CHR ''-'', digit_char (d div 10), digit_char d,
        CHR ''T'', digit_char (hh div 10), digit_char hh,
        CHR '':'', digit_char (mi div 10), digit_char mi,
        CHR '':'', digit_char (ss div 10), digit_char ss]
       @ (if us = 0 then []
          else [CHR ''.'', digit_char (us div 100000), digit_char (us div 10000),
                digit_char (us div 1000), digit_char (us div 100), digit_char (us div 10),
                digit_char us])
       @ utcoffset_format off"
  by (simp add: set_as_of_datetime_def isoformat_def zero_padded_2 zero_padded_4
        zero_padded_6)

theorem as_of_datetime_assignment_witness:
  "priv_as_of_datetime
     (snd (set_as_of_datetime (PDate (Date 2020 1 2))
        (projr (ODM_init \<lparr>now_to_iso8601 = ''2020-01-01T00:00:00'', uuid4 = ''f0e1''\<rparr>
                  (default_args (PStr ''SPONSOR'')))))) = PStr ''2020-01-02''
   \<and> priv_as_of_datetime
     (snd (set_as_of_datetime (PDateTime (DateTime 2020 1 2 3 4 5 0 None))
        (projr (ODM_init \<lparr>now_to_iso8601 = ''2020-01-01T00:00:00'', uuid4 = ''f0e1''\<rparr>
                  (default_args (PStr ''SPONSOR'')))))) = PStr ''2020-01-02T03:04:05''
   \<and> priv_as_of_datetime
     (snd (set_as_of_datetime (PDateTime (DateTime 1999 12 31 23 59 58 1500 None))
        (projr (ODM_init \<lparr>now_to_iso8601 = ''2020-01-01T00:00:00'', uuid4 = ''f0e1''\<rparr>
                  (default_args (PStr ''SPONSOR'')))))) = PStr ''1999-12-31T23:59:58.001500''
   \<and> priv_as_of_datetime
     (snd (set_as_of_datetime (PDateTime (DateTime 2020 1 2 3 4 5 0 (Some 19800000000)))
        (projr (ODM_init \<lparr>now_to_iso8601 = ''2020-01-01T00:00:00'', uuid4 = ''f0e1''\<rparr>
                  (default_args (PStr ''SPONSOR'')))))) = PStr ''2020-01-02T03:04:05+05:30''
   \<and> priv_as_of_datetime
     (snd (set_as_of_datetime (PDateTime (DateTime 2020 1 2 3 4 5 250000 (Some (- 28800000000))))
        (projr (ODM_init \<lparr>now_to_iso8601 = ''2020-01-01T00:00:00'', uuid4 = ''f0e1''\<rparr>
                  (default_args (PStr ''SPONSOR'')))))) = PStr ''2020-01-02T03:04:05.250000-08:00''
   \<and> priv_as_of_datetime
     (snd (set_as_of_datetime (PDateTime (DateTime 2020 1 2 3 4 5 0 (Some 30500000)))
        (projr (ODM_init \<lparr>now_to_iso8601 = ''2020-01-01T00:00:00'', uuid4 = ''f0e1''\<rparr>
                  (default_args (PStr ''SPONSOR'')))))) = PStr ''2020-01-02T03:04:05+00:00:30.500000''
   \<and> set_as_of_datetime (PStr ''2020-01-02'')
        (projr (ODM_init \<lparr>now_to_iso8601 = ''2020-01-01T00:00:00'', uuid4 = ''f0e1''\<rparr>
                  (default_args (PStr ''SPONSOR''))))
      = (Inl (ValueError ''Unexpected format for AsOfDateTime'' []),
         projr (ODM_init \<lparr>now_to_iso8601 = ''2020-01-01T00:00:00'', uuid4 = ''f0e1''\<rparr>
                  (default_args (PStr ''SPONSOR''))))
   \<and> set_as_of_datetime (PInt 5)
        (projr (ODM_init \<lparr>now_to_iso8601 = ''2020-01-01T00:00:00'', uuid4 = ''f0e1''\<rparr>
                  (default_args (PStr ''SPONSOR''))))
      = (Inl (ValueError ''Unexpected format for AsOfDateTime'' []),
         projr (ODM_init \<lparr>now_to_iso8601 = ''2020-01-01T00:00:00'', uuid4 = ''f0e1''\<rparr>
                  (default_args (PStr ''SPONSOR''))))"
proof -
  let ?self = "projr (ODM_init \<lparr>now_to_iso8601 = ''2020-01-01T00:00:00'', uuid4 = ''f0e1''\<rparr>
                  (default_args (PStr ''SPONSOR'')))"
  have iso_d1: "date_isoformat (Date 2020 1 2) = ''2020-01-02''"
    by (simp add: iso_eval)
  from as_of_datetime_assignment [where dv = "Date 2020 1 2" and self = ?self]
  have "set_as_of_datetime (PDate (Date 2020 1 2)) ?self
          = (Inr (), ?self\<lparr>priv_as_of_datetime := PStr (date_isoformat (Date 2020 1 2))\<rparr>)"
    by blast
  then have d1: "priv_as_of_datetime (snd (set_as_of_datetime (PDate (Date 2020 1 2)) ?self))
                 = PStr ''2020-01-02''"
    by (simp only: iso_d1 snd_conv) simp
  have iso_t1: "datetime_isoformat (DateTime 2020 1 2 3 4 5 0 None) = ''2020-01-02T03:04:05''"
    by (simp add: iso_eval)
  from as_of_datetime_assignment [where dt = "DateTime 2020 1 2 3 4 5 0 None" and self = ?self]
  have "set_as_of_datetime (PDateTime (DateTime 2020 1 2 3 4 5 0 None)) ?self
          = (Inr (), ?self\<lparr>priv_as_of_datetime := PStr (datetime_isoformat (DateTime 2020 1 2 3 4 5 0 None))\<rparr>)"
    by blast
  then have t1: "priv_as_of_datetime (snd (set_as_of_datetime (PDateTime (DateTime 2020 1 2 3 4 5 0 None)) ?self))
                 = PStr ''2020-01-02T03:04:05''"
    by (simp only: iso_t1 snd_conv) simp
  have iso_t2: "datetime_isoformat (DateTime 1999 12 31 23 59 58 1500 None) = ''1999-12-31T23:59:58.001500''"
    by (simp add: iso_eval)
  from as_of_datetime_assignment [where dt = "DateTime 1999 12 31 23 59 58 1500 None" and self = ?self]
  have "set_as_of_datetime (PDateTime (DateTime 1999 12 31 23 59 58 1500 None)) ?self
          = (Inr (), ?self\<lparr>priv_as_of_datetime := PStr (datetime_isoformat (DateTime 1999 12 31 23 59 58 1500 None))\<rparr>)"
    by blast
  then have t2: "priv_as_of_datetime (snd (set_as_of_datetime (PDateTime (DateTime 1999 12 31 23 59 58 1500 None)) ?self))
                 = PStr ''1999-12-31T23:59:58.001500''"
    by (simp only: iso_t2 snd_conv) simp
  have iso_t3: "datetime_isoformat (DateTime 2020 1 2 3 4 5 0 (Some 19800000000)) = ''2020-01-02T03:04:05+05:30''"
    by (simp add: iso_eval)
  from as_of_datetime_assignment [where dt = "DateTime 2020 1 2 3 4 5 0 (Some 19800000000)" and self = ?self]
  have "set_as_of_datetime (PDateTime (DateTime 2020 1 2 3 4 5 0 (Some 19800000000))) ?self
          = (Inr (), ?self\<lparr>priv_as_of_datetime := PStr (datetime_isoformat (DateTime 2020 1 2 3 4 5 0 (Some 19800000000)))\<rparr>)"
    by blast
  then have t3: "priv_as_of_datetime (snd (set_as_of_datetime (PDateTime (DateTime 2020 1 2 3 4 5 0 (Some 19800000000))) ?self))
                 = PStr ''2020-01-02T03:04:05+05:30''"
    by (simp only: iso_t3 snd_conv) simp
  have iso_t4: "datetime_isoformat (DateTime 2020 1 2 3 4 5 250000 (Some (- 28800000000))) = ''2020-01-02T03:04:05.250000-08:00''"
    by (simp add: iso_eval)
  from as_of_datetime_assignment [where dt = "DateTime 2020 1 2 3 4 5 250000 (Some (- 28800000000))" and self = ?self]
  have "set_as_of_datetime (PDateTime (DateTime 2020 1 2 3 4 5 250000 (Some (- 28800000000)))) ?self
          = (Inr (), ?self\<lparr>priv_as_of_datetime := PStr (datetime_isoformat (DateTime 2020 1 2 3 4 5 250000 (Some (- 28800000000))))\<rparr>)"
    by blast
  then have t4: "priv_as_of_datetime (snd (set_as_of_datetime (PDateTime (DateTime 2020 1 2 3 4 5 250000 (Some (- 28800000000)))) ?self))
                 = PStr ''2020-01-02T03:04:05.250000-08:00''"
    by (simp only: iso_t4 snd_conv) simp
  have iso_t5: "datetime_isoformat (DateTime 2020 1 2 3 4 5 0 (Some 30500000)) = ''2020-01-02T03:04:05+00:00:30.500000''"
    by (simp add: iso_eval)
  from as_of_datetime_assignment [where dt = "DateTime 2020 1 2 3 4 5 0 (Some 30500000)" and self = ?self]
  have "set_as_of_datetime (PDateTime (DateTime 2020 1 2 3 4 5 0 (Some 30500000))) ?self
          = (Inr (), ?self\<lparr>priv_as_of_datetime := PStr (datetime_isoformat (DateTime 2020 1 2 3 4 5 0 (Some 30500000)))\<rparr>)"
    by blast
  then have t5: "priv_as_of_datetime (snd (set_as_of_datetime (PDateTime (DateTime 2020 1 2 3 4 5 0 (Some 30500000))) ?self))
                 = PStr ''2020-01-02T03:04:05+00:00:30.500000''"
    by (simp only: iso_t5 snd_conv) simp
  have "\<not> is_date_or_datetime (PStr ''2020-01-02'')"
    by simp
  with as_of_datetime_assignment [where v = "PStr ''2020-01-02''" and self = ?self]
  have e1: "set_as_of_datetime (PStr ''2020-01-02'') ?self
              = (Inl (ValueError ''Unexpected format for AsOfDateTime'' []), ?self)"
    by blast
  have "\<not> is_date_or_datetime (PInt 5)"
    by simp
  with as_of_datetime_assignment [where v = "PInt 5" and self = ?self]
  have e2: "set_as_of_datetime (PInt 5) ?self
              = (Inl (ValueError ''Unexpected format for AsOfDateTime'' []), ?self)"
    by blast
  from d1 t1 t2 t3 t4 t5 e1 e2 show ?thesis by blast
qed

subsection \<open>Attaching children\<close>

text \<open>
  C5. For every \<open>other\<close> that is not a ClinicalData, a Study or an AdminData, \<open>odm << other\<close>
  raises a \<open>ValueError\<close> whose message names these three classes as the only ones the
  object can receive, and leaves the state unchanged; for every \<open>other\<close> of one of the
  three classes it returns \<open>other\<close> itself.
\<close>

theorem lshift_type_check:
  "(\<not> is_child other \<longrightarrow>
      ODM_lshift other self =
        (Inl (ValueError
                ''ODM object can only receive ClinicalData, Study or AdminData object'' []),
         self))
   \<and> (is_child other \<longrightarrow> fst (ODM_lshift other self) = Inr other)"
  by (simp add: ODM_lshift_def)

theorem lshift_type_check_witness:
  "ODM_lshift (ObjValue (PInt 5))
       (projr (ODM_init \<lparr>now_to_iso8601 = ''2020-01-01T00:00:00'', uuid4 = ''f0e1''\<rparr>
                 (default_args (PStr ''SPONSOR''))))
     = (Inl (ValueError
               ''ODM object can only receive ClinicalData, Study or AdminData object'' []),
        projr (ODM_init \<lparr>now_to_iso8601 = ''2020-01-01T00:00:00'', uuid4 = ''f0e1''\<rparr>
                 (default_args (PStr ''SPONSOR''))))
   \<and> fst (ODM_lshift (ObjStudy (MkStudy (Element ''Study'' [] [])))
       (projr (ODM_init \<lparr>now_to_iso8601 = ''2020-01-01T00:00:00'', uuid4 = ''f0e1''\<rparr>
                 (default_args (PStr ''SPONSOR'')))))
     = Inr (ObjStudy (MkStudy (Element ''Study'' [] [])))"
proof -
  let ?self = "projr (ODM_init \<lparr>now_to_iso8601 = ''2020-01-01T00:00:00'', uuid4 = ''f0e1''\<rparr>
                  (default_args (PStr ''SPONSOR'')))"
  from lshift_type_check [of "ObjValue (PInt 5)" ?self]
  have a: "ODM_lshift (ObjValue (PInt 5)) ?self
     = (Inl (ValueError
               ''ODM object can only receive ClinicalData, Study or AdminData object'' []),
        ?self)"
    by simp
  from lshift_type_check [of "ObjStudy (MkStudy (Element ''Study'' [] []))" ?self]
  have b: "fst (ODM_lshift (ObjStudy (MkStudy (Element ''Study'' [] []))) ?self)
     = Inr (ObjStudy (MkStudy (Element ''Study'' [] [])))"
    by simp
  from a b show ?thesis by blast
qed

lemma lshift_child:
  "is_child other \<Longrightarrow>
     ODM_lshift other self =
       (Inr other,
        (case other of
           ObjClinicalData cd \<Rightarrow> self\<lparr>clinical_data := clinical_data self @ [cd]\<rparr>
         | ObjStudy st \<Rightarrow> self\<lparr>study := Some st\<rparr>
         | ObjAdminData ad \<Rightarrow> self\<lparr>admindata := Some ad\<rparr>
         | ObjValue v \<Rightarrow> self))"
  by (cases other)
     (simp_all add: ODM_lshift_def set_list_attribute_clinical_data_def
        set_single_attribute_study_def set_single_attribute_admindata_def)

lemma lshift_all_children:
  "list_all is_child others \<Longrightarrow>
     fst (lshift_all others self) = Inr ()
     \<and> clinical_data (snd (lshift_all others self)) =
         clinical_data self
         @ List.map_filter (\<lambda>other. case other of ObjClinicalData cd \<Rightarrow> Some cd | _ \<Rightarrow> None) others"
proof (induction others arbitrary: self)
  case Nil
  then show ?case by (simp add: List.map_filter_simps)
next
  case (Cons other others)
  then have c: "is_child other" and cs: "list_all is_child others" by simp_all
  show ?case
    using Cons.IH[OF cs] c
    by (cases other) (simp_all add: lshift_child List.map_filter_simps)
qed

lemma lshift_all_clinical_data:
  "fst (lshift_all (map ObjClinicalData cds) self) = Inr ()
   \<and> clinical_data (snd (lshift_all (map ObjClinicalData cds) self)) = clinical_data self @ cds"
  by (induction cds arbitrary: self) (simp_all add: lshift_child)

text \<open>
  C6. Attaching the ClinicalData objects \<open>cds\<close> one after the other, whatever their number,
  raises nothing and appends them to the list \<open>clinical_data\<close> in the order of attachment;
  the same holds for the ClinicalData objects among any sequence of attached children.
  Attaching a second Study (or a second AdminData) is not rejected: it returns the
  second object and leaves it in place of the first.
\<close>

theorem lshift_append_and_replace:
  "fst (lshift_all (map ObjClinicalData cds) self) = Inr ()
   \<and> clinical_data (snd (lshift_all (map ObjClinicalData cds) self)) = clinical_data self @ cds
   \<and> (list_all is_child others \<longrightarrow>
        clinical_data (snd (lshift_all others self)) =
          clinical_data self
          @ List.map_filter (\<lambda>other. case other of ObjClinicalData cd \<Rightarrow> Some cd | _ \<Rightarrow> None)
              others)
   \<and> ODM_lshift (ObjStudy st2) (snd (ODM_lshift (ObjStudy st1) self)) =
       (Inr (ObjStudy st2), self\<lparr>study := Some st2\<rparr>)
   \<and> ODM_lshift (ObjAdminData ad2) (snd (ODM_lshift (ObjAdminData ad1) self)) =
       (Inr (ObjAdminData ad2), self\<lparr>admindata := Some ad2\<rparr>)"
  using lshift_all_children[of others self] lshift_all_clinical_data[of cds self]
  by (simp add: lshift_child)

theorem lshift_append_and_replace_witness:
  "clinical_data
     (snd (lshift_all
        [ObjClinicalData (MkClinicalData (Element ''ClinicalData'' [(''StudyOID'', PStr ''A'')] [])),
         ObjStudy (MkStudy (Element ''Study'' [(''OID'', PStr ''S1'')] [])),
         ObjClinicalData (MkClinicalData (Element ''ClinicalData'' [(''StudyOID'', PStr ''B'')] [])),
         ObjStudy (MkStudy (Element ''Study'' [(''OID'', PStr ''S2'')] [])),
         ObjClinicalData (MkClinicalData (Element ''ClinicalData'' [(''StudyOID'', PStr ''C'')] []))]
        (projr (ODM_init \<lparr>now_to_iso8601 = ''2020-01-01T00:00:00'', uuid4 = ''f0e1''\<rparr>
                  (default_args (PStr ''SPONSOR''))))))
     = [MkClinicalData (Element ''ClinicalData'' [(''StudyOID'', PStr ''A'')] []),
        MkClinicalData (Element ''ClinicalData'' [(''StudyOID'', PStr ''B'')] []),
        MkClinicalData (Element ''ClinicalData'' [(''StudyOID'', PStr ''C'')] [])]
   \<and> study
       (snd (ODM_lshift (ObjStudy (MkStudy (Element ''Study'' [(''OID'', PStr ''S2'')] [])))
          (snd (ODM_lshift (ObjStudy (MkStudy (Element ''Study'' [(''OID'', PStr ''S1'')] [])))
             (projr (ODM_init \<lparr>now_to_iso8601 = ''2020-01-01T00:00:00'', uuid4 = ''f0e1''\<rparr>
                       (default_args (PStr ''SPONSOR''))))))))
     = Some (MkStudy (Element ''Study'' [(''OID'', PStr ''S2'')] []))"
proof -
  let ?self = "projr (ODM_init \<lparr>now_to_iso8601 = ''2020-01-01T00:00:00'', uuid4 = ''f0e1''\<rparr>
                  (default_args (PStr ''SPONSOR'')))"
  let ?a = "MkClinicalData (Element ''ClinicalData'' [(''StudyOID'', PStr ''A'')] [])"
  let ?b = "MkClinicalData (Element ''ClinicalData'' [(''StudyOID'', PStr ''B'')] [])"
  let ?c = "MkClinicalData (Element ''ClinicalData'' [(''StudyOID'', PStr ''C'')] [])"
  let ?s1 = "MkStudy (Element ''Study'' [(''OID'', PStr ''S1'')] [])"
  let ?s2 = "MkStudy (Element ''Study'' [(''OID'', PStr ''S2'')] [])"
  let ?others = "[ObjClinicalData ?a, ObjStudy ?s1, ObjClinicalData ?b, ObjStudy ?s2,
                  ObjClinicalData ?c]"
  have empty: "clinical_data ?self = []"
    by (simp add: ODM_init_def Let_def default_args_def set_granularity_type_def)
  have children: "list_all is_child ?others"
    by simp
  note inst = lshift_append_and_replace
                [of "[]" ?self ?others ?s2 ?s1 "MkAdminData (Element ''AdminData'' [] [])"
                   "MkAdminData (Element ''AdminData'' [] [])"]
  from inst children
  have "clinical_data (snd (lshift_all ?others ?self)) =
          clinical_data ?self
          @ List.map_filter (\<lambda>other. case other of ObjClinicalData cd \<Rightarrow> Some cd | _ \<Rightarrow> None)
              ?others"
    by blast
  then have a: "clinical_data (snd (lshift_all ?others ?self)) = [?a, ?b, ?c]"
    by (simp only: empty) (simp add: List.map_filter_simps)
  from inst
  have "ODM_lshift (ObjStudy ?s2) (snd (ODM_lshift (ObjStudy ?s1) ?self)) =
          (Inr (ObjStudy ?s2), ?self\<lparr>study := Some ?s2\<rparr>)"
    by blast
  then have b: "study (snd (ODM_lshift (ObjStudy ?s2) (snd (ODM_lshift (ObjStudy ?s1) ?self))))
                  = Some ?s2"
    by simp
  from a b show ?thesis by blast
qed

subsection \<open>Operations that only read the state\<close>

lemma ODM_build_state: "snd (ODM_build b self) = self"
  by (simp add: ODM_build_def Let_def)

lemma ODM_getroot_state: "snd (ODM_getroot self) = self"
  by (simp add: ODM_getroot_eq)

lemma ODM_str_eq:
  "ODM_str ind ts self =
     (case ts (ind (Element ''ODM'' (build_params self)
                      ((case study self of None \<Rightarrow> [] | Some st \<Rightarrow> [study_element st])
                       @ map clinical_data_element (clinical_data self)
                       @ (case admindata self of None \<Rightarrow> [] | Some ad \<Rightarrow> [admindata_element ad])))) of
        Inl e \<Rightarrow> (Inl e, self)
      | Inr text \<Rightarrow> (Inr (xml_header @ text), self))"
  by (simp add: ODM_str_def ODM_getroot_eq)

lemma ODM_str_state: "snd (ODM_str ind ts self) = self"
  by (simp add: ODM_str_eq split: sum.split)

lemma set_odm_version_frame:
  "fileoid (snd (set_odm_version v self)) = fileoid self"
  "filetype (snd (set_odm_version v self)) = filetype self"
  by (simp_all add: set_odm_version_def)

lemma set_as_of_datetime_frame:
  "fileoid (snd (set_as_of_datetime v self)) = fileoid self"
  "filetype (snd (set_as_of_datetime v self)) = filetype self"
  by (simp_all add: set_as_of_datetime_def isoformat_def split: pyval.split)

lemma set_granularity_type_frame:
  "fileoid (snd (set_granularity_type v self)) = fileoid self"
  "filetype (snd (set_granularity_type v self)) = filetype self"
  by (simp_all add: set_granularity_type_def split: pyval.split)

lemma ODM_lshift_frame:
  "fileoid (snd (ODM_lshift other self)) = fileoid self"
  "filetype (snd (ODM_lshift other self)) = filetype self"
  by (simp_all add: ODM_lshift_def set_list_attribute_clinical_data_def
        set_single_attribute_study_def set_single_attribute_admindata_def split: pyobj.split)

lemma apply_op_frame:
  "fileoid (apply_op ind ts op self) = fileoid self"
  "filetype (apply_op ind ts op self) = filetype self"
  by (cases op;
      simp add: set_odm_version_frame set_as_of_datetime_frame set_granularity_type_frame
        ODM_lshift_frame ODM_build_state ODM_getroot_state ODM_str_state)+

lemma apply_ops_fileoid: "fileoid (apply_ops ind ts ops self) = fileoid self"
  by (induction ops arbitrary: self) (simp_all add: apply_op_frame)

lemma apply_ops_filetype: "filetype (apply_ops ind ts ops self) = filetype self"
  by (induction ops arbitrary: self) (simp_all add: apply_op_frame)

lemma setter_calls_fields:
  assumes "(case (if truthy g then set_granularity_type g s0 else (Inr (), s0)) of
              (Inl e, _) \<Rightarrow> Inl e
            | (Inr _, s1) \<Rightarrow>
                (case (if truthy v then set_odm_version v s1 else (Inr (), s1)) of
                   (Inl e, _) \<Rightarrow> Inl e
                 | (Inr _, s2) \<Rightarrow>
                     (case (if truthy d then set_as_of_datetime d s2 else (Inr (), s2)) of
                        (Inl e, _) \<Rightarrow> Inl e
                      | (Inr _, s3) \<Rightarrow> Inr s3))) = Inr self"
  shows "filetype self = filetype s0"
    and "fileoid self = fileoid s0"
    and "priv_granularity_type self =
           (if truthy g then (case g of PGranularity x \<Rightarrow> Some x | _ \<Rightarrow> None)
            else priv_granularity_type s0)"
    and "truthy g \<longrightarrow> is_GranularityType g"
  using assms by (auto simp: setter_eqs split: if_splits)

lemma ODM_init_fields:
  assumes "ODM_init env a = Inr self"
  shows "filetype self =
           (if arg_filetype a = PNone then FILETYPE_TRANSACTIONAL else FILETYPE_SNAPSHOT)"
    and "fileoid self = (if arg_fileoid a = PNone then PStr (uuid4 env) else arg_fileoid a)"
    and "priv_granularity_type self =
           (case arg_granularity a of PGranularity g \<Rightarrow> Some g | _ \<Rightarrow> None)"
    and "truthy (arg_granularity a) \<longrightarrow> is_GranularityType (arg_granularity a)"
proof -
  note calls = assms [unfolded ODM_init_def Let_def]
  from setter_calls_fields(1) [OF calls] show "filetype self =
      (if arg_filetype a = PNone then FILETYPE_TRANSACTIONAL else FILETYPE_SNAPSHOT)"
    by simp
  from setter_calls_fields(2) [OF calls] show "fileoid self =
      (if arg_fileoid a = PNone then PStr (uuid4 env) else arg_fileoid a)"
    by simp
  from setter_calls_fields(3) [OF calls] show "priv_granularity_type self =
      (case arg_granularity a of PGranularity g \<Rightarrow> Some g | _ \<Rightarrow> None)"
    by (cases "arg_granularity a") simp_all
  from setter_calls_fields(4) [OF calls]
  show "truthy (arg_granularity a) \<longrightarrow> is_GranularityType (arg_granularity a)" .
qed

subsection \<open>The file type\<close>

text \<open>
  C7. The file type of a constructed object is one of the two labels: "Transactional"
  when the constructor's \<open>filetype\<close> argument is \<open>None\<close>, and "Snapshot" for every other
  argument, the string "Transactional" included; no operation of the class changes it
  afterwards.
\<close>

theorem filetype_two_labels:
  "ODM_init env a = Inr self \<Longrightarrow>
     filetype self =
       (if arg_filetype a = PNone then PStr ''Transactional'' else PStr ''Snapshot'')
     \<and> filetype (apply_ops ind ts ops self) = filetype self"
  by (simp add: ODM_init_fields(1) apply_ops_filetype FILETYPE_TRANSACTIONAL_def
        FILETYPE_SNAPSHOT_def)

theorem filetype_two_labels_witness:
  "filetype (projr (ODM_init \<lparr>now_to_iso8601 = ''2020-01-01T00:00:00'', uuid4 = ''f0e1''\<rparr>
                      (default_args (PStr ''SPONSOR''))))
     = PStr ''Transactional''
   \<and> filetype (projr (ODM_init \<lparr>now_to_iso8601 = ''2020-01-01T00:00:00'', uuid4 = ''f0e1''\<rparr>
                      ((default_args (PStr ''SPONSOR''))\<lparr>arg_filetype := PStr ''Transactional''\<rparr>)))
     = PStr ''Snapshot''"
proof -
  let ?env = "\<lparr>now_to_iso8601 = ''2020-01-01T00:00:00'', uuid4 = ''f0e1''\<rparr>"
  let ?a = "default_args (PStr ''SPONSOR'')"
  let ?b = "(default_args (PStr ''SPONSOR''))\<lparr>arg_filetype := PStr ''Transactional''\<rparr>"
  have ra: "ODM_init ?env ?a = Inr (projr (ODM_init ?env ?a))"
    by (simp add: ODM_init_def Let_def default_args_def set_granularity_type_def)
  have rb: "ODM_init ?env ?b = Inr (projr (ODM_init ?env ?b))"
    by (simp add: ODM_init_def Let_def default_args_def set_granularity_type_def)
  have na: "arg_filetype ?a = PNone" and nb: "arg_filetype ?b \<noteq> PNone"
    by (simp_all add: default_args_def)
  from filetype_two_labels [OF ra, of id "\<lambda>d. Inr []" "[]"] na
  have a: "filetype (projr (ODM_init ?env ?a)) = PStr ''Transactional''"
    by simp
  from filetype_two_labels [OF rb, of id "\<lambda>d. Inr []" "[]"] nb
  have b: "filetype (projr (ODM_init ?env ?b)) = PStr ''Snapshot''"
    by simp
  from a b show ?thesis by blast
qed

subsection \<open>Serializing twice\<close>

lemma dict_set_new: "k \<notin> set (map fst d) \<Longrightarrow> dict_set d k v = d @ [(k, v)]"
  by (induction d k v rule: dict_set.induct) auto

lemma in_set_if_single: "(k \<in> set (if c then [x] else [])) = (c \<and> k = x)"
  by (cases c) simp_all

text \<open>The keys of \<open>params\<close> in the order of \<open>dict\<close> iteration, which is the order of insertion.\<close>

lemma build_params_order:
  "map fst (build_params self) =
     [''ODMVersion'', ''FileType'', ''CreationDateTime'', ''Originator'', ''FileOID'', ''xmlns'']
     @ (if priv_granularity_type self \<noteq> None then [''Granularity''] else [])
     @ (if truthy (source_system self) then [''SourceSystem''] else [])
     @ (if truthy (source_system_version self) then [''SourceSystemVersion''] else [])
     @ [''xmlns:mdsol'']
     @ (if truthy (description self) then [''Description''] else [])
     @ (if truthy (priv_as_of_datetime self) then [''AsOfDateTime''] else [])"
proof -
  define p0 where "p0 = [(''ODMVersion'', priv_odm_version self),
                         (''FileType'', filetype self),
                         (''CreationDateTime'', creationdatetime self),
                         (''Originator'', originator self),
                         (''FileOID'', fileoid self),
                         (''xmlns'', PStr ''http://www.cdisc.org/ns/odm/v1.3'')]"
  define p1 where "p1 = (case priv_granularity_type self of
                           Some g \<Rightarrow> dict_set p0 ''Granularity'' (PStr (member_value g))
                         | None \<Rightarrow> p0)"
  define p2 where "p2 = (if truthy (source_system self)
                         then dict_set p1 ''SourceSystem'' (source_system self) else p1)"
  define p3 where "p3 = (if truthy (source_system_version self)
                         then dict_set p2 ''SourceSystemVersion'' (source_system_version self)
                         else p2)"
  define p4 where "p4 = dict_set p3 ''xmlns:mdsol'' (PStr ''http://www.mdsol.com/ns/odm/metadata'')"
  define p5 where "p5 = (if truthy (description self)
                         then dict_set p4 ''Description'' (description self) else p4)"
  define p6 where "p6 = (if truthy (priv_as_of_datetime self)
                         then dict_set p5 ''AsOfDateTime'' (priv_as_of_datetime self) else p5)"
  have e: "build_params self = p6"
    by (simp only: build_params_def Let_def p6_def p5_def p4_def p3_def p2_def p1_def p0_def)
  have k0: "map fst p0 =
      [''ODMVersion'', ''FileType'', ''CreationDateTime'', ''Originator'', ''FileOID'', ''xmlns'']"
    by (simp add: p0_def)
  have k1: "map fst p1 =
      map fst p0 @ (if priv_granularity_type self \<noteq> None then [''Granularity''] else [])"
  proof (cases "priv_granularity_type self")
    case None
    then show ?thesis by (simp add: p1_def)
  next
    case (Some g)
    have "''Granularity'' \<notin> set (map fst p0)" by (simp add: k0)
    then show ?thesis by (simp add: p1_def Some dict_set_new)
  qed
  have n2: "''SourceSystem'' \<notin> set (map fst p1)"
    by (simp only: k1 k0 set_append in_set_if_single Un_iff) simp
  have k2: "map fst p2 =
      map fst p1 @ (if truthy (source_system self) then [''SourceSystem''] else [])"
    by (simp add: p2_def dict_set_new [OF n2])
  have n3: "''SourceSystemVersion'' \<notin> set (map fst p2)"
    by (simp only: k2 k1 k0 set_append in_set_if_single Un_iff) simp
  have k3: "map fst p3 =
      map fst p2
      @ (if truthy (source_system_version self) then [''SourceSystemVersion''] else [])"
    by (simp add: p3_def dict_set_new [OF n3])
  have n4: "''xmlns:mdsol'' \<notin> set (map fst p3)"
    by (simp only: k3 k2 k1 k0 set_append in_set_if_single Un_iff) simp
  have k4: "map fst p4 = map fst p3 @ [''xmlns:mdsol'']"
    by (simp add: p4_def dict_set_new [OF n4])
  have n5: "''Description'' \<notin> set (map fst p4)"
    by (simp only: k4 k3 k2 k1 k0 set_append in_set_if_single Un_iff) simp
  have k5: "map fst p5 =
      map fst p4 @ (if truthy (description self) then [''Description''] else [])"
    by (simp add: p5_def dict_set_new [OF n5])
  have n6: "''AsOfDateTime'' \<notin> set (map fst p5)"
    by (simp only: k5 k4 k3 k2 k1 k0 set_append in_set_if_single Un_iff) simp
  have k6: "map fst p6 =
      map fst p5 @ (if truthy (priv_as_of_datetime self) then [''AsOfDateTime''] else [])"
    by (simp add: p6_def dict_set_new [OF n6])
  show ?thesis
    by (simp only: e k6 k5 k4 k3 k2 k1 k0 append_assoc)
qed

text \<open>
  C8. Serializing an object twice in a row, with nothing in between, returns the same
  text (or the same exception) twice. The helpers \<open>indent\<close> and \<open>ET.tostring\<close> are not part
  of core.py; \<open>indent w\<close> and \<open>tostring w\<close> are what they compute when called at the moment
  \<open>w\<close>, and the hypotheses say that they compute the same at every moment. Then a
  call at \<open>w1\<close> and a following call at \<open>w2\<close> return the same, namely the header followed
  by the text of the indented tree. That tree is the one both calls of \<open>getroot\<close> return,
  and the keys of its attribute dictionary come in one fixed order, that of their
  insertion into \<open>params\<close>, whatever the values of the fields.
\<close>

theorem str_twice_identical:
  assumes "\<forall>w w' t. indent w t = indent w' t"
    and "\<forall>w w' doc. tostring w doc = tostring w' doc"
  shows "fst (ODM_str (indent w2) (tostring w2)
                (snd (ODM_str (indent w1) (tostring w1) self)))
           = fst (ODM_str (indent w1) (tostring w1) self)
   \<and> (\<exists>a cs. fst (ODM_getroot self) = Inr (Element ''ODM'' a cs)
         \<and> fst (ODM_getroot (snd (ODM_getroot self))) = Inr (Element ''ODM'' a cs)
         \<and> map fst a =
             [''ODMVersion'', ''FileType'', ''CreationDateTime'', ''Originator'', ''FileOID'', ''xmlns'']
             @ (if priv_granularity_type self \<noteq> None then [''Granularity''] else [])
             @ (if truthy (source_system self) then [''SourceSystem''] else [])
             @ (if truthy (source_system_version self) then [''SourceSystemVersion''] else [])
             @ [''xmlns:mdsol'']
             @ (if truthy (description self) then [''Description''] else [])
             @ (if truthy (priv_as_of_datetime self) then [''AsOfDateTime''] else [])
         \<and> fst (ODM_str (indent w1) (tostring w1) self) =
             (case tostring w1 (indent w1 (Element ''ODM'' a cs)) of
                Inl e \<Rightarrow> Inl e
              | Inr text \<Rightarrow> Inr (xml_header @ text)))"
proof -
  from assms have same: "indent w2 = indent w1" "tostring w2 = tostring w1"
    by (auto intro!: ext)
  show ?thesis
    by (simp add: same ODM_str_state ODM_str_eq ODM_getroot_eq build_params_order
          split: sum.split)
qed

theorem str_twice_identical_witness:
  "fst (ODM_str ((\<lambda>(w::nat) t. t) 1)
          ((\<lambda>(w::nat) doc. Inr (concat (map (\<lambda>kv. fst kv @ [CHR 0x20]) (xml_attrib doc)))) 1)
          (projr (ODM_init \<lparr>now_to_iso8601 = ''2020-01-01T00:00:00'', uuid4 = ''f0e1''\<rparr>
                  (default_args (PStr ''SPONSOR'')))))
     = Inr (xml_header @ ''ODMVersion FileType CreationDateTime Originator FileOID xmlns Granularity xmlns:mdsol '')
   \<and> fst (ODM_str ((\<lambda>(w::nat) t. t) 2)
          ((\<lambda>(w::nat) doc. Inr (concat (map (\<lambda>kv. fst kv @ [CHR 0x20]) (xml_attrib doc)))) 2)
          (snd (ODM_str ((\<lambda>(w::nat) t. t) 1)
                  ((\<lambda>(w::nat) doc. Inr (concat (map (\<lambda>kv. fst kv @ [CHR 0x20]) (xml_attrib doc)))) 1)
                  (projr (ODM_init \<lparr>now_to_iso8601 = ''2020-01-01T00:00:00'', uuid4 = ''f0e1''\<rparr>
                  (default_args (PStr ''SPONSOR'')))))))
     = Inr (xml_header @ ''ODMVersion FileType CreationDateTime Originator FileOID xmlns Granularity xmlns:mdsol '')"
proof -
  let ?self = "projr (ODM_init \<lparr>now_to_iso8601 = ''2020-01-01T00:00:00'', uuid4 = ''f0e1''\<rparr>
                  (default_args (PStr ''SPONSOR'')))"
  let ?ind = "\<lambda>(w::nat) t. t"
  let ?ts = "(\<lambda>(w::nat) doc. Inr (concat (map (\<lambda>kv. fst kv @ [CHR 0x20]) (xml_attrib doc)))) :: nat \<Rightarrow> xml \<Rightarrow> py_error + string"
  have h1: "\<forall>w w' t. ?ind w t = ?ind w' t"
    by simp
  have h2: "\<forall>w w' doc. ?ts w doc = ?ts w' doc"
    by simp
  have fields: "priv_granularity_type ?self \<noteq> None" "\<not> truthy (source_system ?self)"
    "\<not> truthy (source_system_version ?self)" "\<not> truthy (description ?self)"
    "\<not> truthy (priv_as_of_datetime ?self)"
    by (simp_all add: ODM_init_def Let_def default_args_def set_granularity_type_def)
  note inst = str_twice_identical [OF h1 h2, where self = ?self]
  from inst
  have twice: "fst (ODM_str (?ind 2) (?ts 2) (snd (ODM_str (?ind 1) (?ts 1) ?self)))
                 = fst (ODM_str (?ind 1) (?ts 1) ?self)"
    by (rule conjunct1)
  from inst obtain a cs where
    keys0: "map fst a =
        [''ODMVersion'', ''FileType'', ''CreationDateTime'', ''Originator'', ''FileOID'', ''xmlns'']
        @ (if priv_granularity_type ?self \<noteq> None then [''Granularity''] else [])
        @ (if truthy (source_system ?self) then [''SourceSystem''] else [])
        @ (if truthy (source_system_version ?self) then [''SourceSystemVersion''] else [])
        @ [''xmlns:mdsol'']
        @ (if truthy (description ?self) then [''Description''] else [])
        @ (if truthy (priv_as_of_datetime ?self) then [''AsOfDateTime''] else [])"
    and first: "fst (ODM_str (?ind 1) (?ts 1) ?self) =
        (case ?ts 1 (?ind 1 (Element ''ODM'' a cs)) of
           Inl e \<Rightarrow> Inl e
         | Inr text \<Rightarrow> Inr (xml_header @ text))"
    by blast
  have keys: "map fst a =
        [''ODMVersion'', ''FileType'', ''CreationDateTime'', ''Originator'', ''FileOID'',
         ''xmlns'', ''Granularity'', ''xmlns:mdsol'']"
    by (simp only: keys0 fields if_True if_False) simp
  have "concat (map (\<lambda>kv. fst kv @ [CHR 0x20]) a) =
          concat (map (\<lambda>k. k @ [CHR 0x20]) (map fst a))"
    by (simp add: comp_def)
  then have body: "concat (map (\<lambda>kv. fst kv @ [CHR 0x20]) a) =
      ''ODMVersion FileType CreationDateTime Originator FileOID xmlns Granularity xmlns:mdsol ''"
    by (simp only: keys) simp
  from first body
  have a: "fst (ODM_str (?ind 1) (?ts 1) ?self) =
      Inr (xml_header
           @ ''ODMVersion FileType CreationDateTime Originator FileOID xmlns Granularity xmlns:mdsol '')"
    by simp
  from twice a show ?thesis by simp
qed

subsection \<open>What rendering and the other operations leave unchanged\<close>

text \<open>
  C9. \<open>getroot\<close>, \<open>build\<close> (on any builder) and \<open>__str__\<close> leave the whole state of the
  object as it was, and no sequence of the class's operations (the three setters, child
  attachment, \<open>getroot\<close>, \<open>build\<close>, \<open>__str__\<close>; failed calls included) changes \<open>fileoid\<close>.
\<close>

theorem render_keeps_state_and_fileoid_fixed:
  "snd (ODM_getroot self) = self
   \<and> snd (ODM_build b self) = self
   \<and> snd (ODM_str ind ts self) = self
   \<and> fileoid (apply_ops ind ts ops self) = fileoid self"
  by (simp add: ODM_getroot_state ODM_build_state ODM_str_state apply_ops_fileoid)

subsection \<open>The default granularity\<close>

lemma ODM_init_default:
  "\<exists>self. ODM_init env (default_args orig) = Inr self
      \<and> priv_granularity_type self = Some AllClinicalData"
  by (simp add: ODM_init_def Let_def default_args_def set_granularity_type_def)

lemma granularity_key_iff:
  assumes "ODM_init env args = Inr self"
  shows "(''Granularity'' \<in> fst ` set (build_params self)) = truthy (arg_granularity args)"
proof -
  from ODM_init_fields(3,4)[OF assms]
  have "(priv_granularity_type self \<noteq> None) = truthy (arg_granularity args)"
    by (cases "arg_granularity args") simp_all
  then show ?thesis by (simp add: build_params_optional(2))
qed

text \<open>
  C10. A constructor call that passes only the originator succeeds and sets the
  granularity to \<open>GranularityType.AllClinicalData\<close>, so that the rendered root has the
  attribute Granularity with the value "AllClinicalData". For every constructor call that
  succeeds, the rendered root of the new object has a Granularity attribute exactly when
  the \<open>granularity\<close> argument is true in Python's sense: it is omitted only for an
  argument such as \<open>None\<close>.
\<close>

theorem default_granularity:
  "(\<exists>self a cs. ODM_init env (default_args orig) = Inr self
       \<and> priv_granularity_type self = Some AllClinicalData
       \<and> fst (ODM_getroot self) = Inr (Element ''ODM'' a cs)
       \<and> map_of a ''Granularity'' = Some (PStr ''AllClinicalData''))
   \<and> (ODM_init env args = Inr self' \<longrightarrow>
        (\<exists>a cs. fst (ODM_getroot self') = Inr (Element ''ODM'' a cs)
           \<and> (''Granularity'' \<in> fst ` set a) = truthy (arg_granularity args)))"
proof (intro conjI impI)
  from ODM_init_default [of env orig] obtain self where
    s: "ODM_init env (default_args orig) = Inr self"
       "priv_granularity_type self = Some AllClinicalData"
    by blast
  have "map_of (build_params self) ''Granularity'' = Some (PStr ''AllClinicalData'')"
    by (simp add: build_params_granularity s(2) AllClinicalData_def)
  with s show "\<exists>self a cs. ODM_init env (default_args orig) = Inr self
       \<and> priv_granularity_type self = Some AllClinicalData
       \<and> fst (ODM_getroot self) = Inr (Element ''ODM'' a cs)
       \<and> map_of a ''Granularity'' = Some (PStr ''AllClinicalData'')"
    by (simp add: ODM_getroot_eq)
next
  assume "ODM_init env args = Inr self'"
  from granularity_key_iff [OF this]
  show "\<exists>a cs. fst (ODM_getroot self') = Inr (Element ''ODM'' a cs)
           \<and> (''Granularity'' \<in> fst ` set a) = truthy (arg_granularity args)"
    by (simp add: ODM_getroot_eq)
qed

theorem default_granularity_witness:
  "map_of (xml_attrib (projr (fst (ODM_getroot
       (projr (ODM_init \<lparr>now_to_iso8601 = ''2020-01-01T00:00:00'', uuid4 = ''f0e1''\<rparr>
                 (default_args (PStr ''SPONSOR''))))))))
     ''Granularity'' = Some (PStr ''AllClinicalData'')
   \<and> ''Granularity'' \<notin> fst ` set (xml_attrib (projr (fst (ODM_getroot
       (projr (ODM_init \<lparr>now_to_iso8601 = ''2020-01-01T00:00:00'', uuid4 = ''f0e1''\<rparr>
                 ((default_args (PStr ''SPONSOR''))\<lparr>arg_granularity := PNone\<rparr>)))))))"
proof -
  let ?env = "\<lparr>now_to_iso8601 = ''2020-01-01T00:00:00'', uuid4 = ''f0e1''\<rparr>"
  let ?a = "default_args (PStr ''SPONSOR'')"
  let ?b = "(default_args (PStr ''SPONSOR''))\<lparr>arg_granularity := PNone\<rparr>"
  have rb: "ODM_init ?env ?b = Inr (projr (ODM_init ?env ?b))"
    by (simp add: ODM_init_def Let_def default_args_def)
  have fb: "\<not> truthy (arg_granularity ?b)"
    by (simp add: default_args_def)
  note inst = default_granularity [of ?env "PStr ''SPONSOR''" ?b "projr (ODM_init ?env ?b)"]
  from inst obtain self a cs where
    d: "ODM_init ?env ?a = Inr self" "fst (ODM_getroot self) = Inr (Element ''ODM'' a cs)"
       "map_of a ''Granularity'' = Some (PStr ''AllClinicalData'')"
    by blast
  from d have a: "map_of (xml_attrib (projr (fst (ODM_getroot (projr (ODM_init ?env ?a))))))
                    ''Granularity'' = Some (PStr ''AllClinicalData'')"
    by simp
  from inst rb fb obtain a' cs' where
    e: "fst (ODM_getroot (projr (ODM_init ?env ?b))) = Inr (Element ''ODM'' a' cs')"
       "''Granularity'' \<notin> fst ` set a'"
    by blast
  from e have b: "''Granularity'' \<notin> fst ` set (xml_attrib (projr (fst (ODM_getroot
                    (projr (ODM_init ?env ?b))))))"
    by simp
  from a b show ?thesis by blast
qed

end
